theory Spec2Isabelle
  imports Complex_Main
begin

section \<open>JavaScript values used by VRController.js\<close>

text \<open>
  Numbers are modelled as \<open>real\<close>: the comparisons, sign changes and sums the
  properties below are about are read over the reals, and NaN and the infinities are not
  values of the model. A value that may be \<open>undefined\<close> is an \<open>option\<close>
  (\<open>None\<close> is \<open>undefined\<close> or \<open>null\<close>). Strings are \<open>string\<close>.
\<close>

datatype js_error = TypeError | ReferenceError

text \<open>\<open>String.prototype.startsWith\<close>.\<close>

fun startsWith :: "string \<Rightarrow> string \<Rightarrow> bool" where
  "startsWith s [] = True"
| "startsWith [] (k # ks) = False"
| "startsWith (c # cs) (k # ks) = (c = k \<and> startsWith cs ks)"

text \<open>
  \<open>String.prototype.indexOf\<close>: the first position at which the key occurs, or \<open>-1\<close>.
\<close>

fun indexOf_from :: "string \<Rightarrow> string \<Rightarrow> nat \<Rightarrow> int" where
  "indexOf_from [] key i = (if key = [] then int i else - 1)"
| "indexOf_from (c # cs) key i =
     (if startsWith (c # cs) key then int i else indexOf_from cs key (Suc i))"

definition indexOf :: "string \<Rightarrow> string \<Rightarrow> int" where
  "indexOf s key = indexOf_from s key 0"

text \<open>Number to string, for \<open>'button_' + i\<close> and \<open>'axes_' + (i+1)\<close>.\<close>

definition digit_char :: "nat \<Rightarrow> char" where
  "digit_char d = ''0123456789'' ! d"

fun string_of_nat :: "nat \<Rightarrow> string" where
  "string_of_nat n =
     (if n < 10 then [digit_char n] else string_of_nat (n div 10) @ [digit_char (n mod 10)])"

declare string_of_nat.simps [simp del]

text \<open>
  Assignment to a property of an object whose keys are kept in insertion order:
  an existing key keeps its place, a new key goes last.
\<close>

fun obj_set :: "'k \<Rightarrow> 'v \<Rightarrow> ('k \<times> 'v) list \<Rightarrow> ('k \<times> 'v) list" where
  "obj_set k v [] = [(k, v)]"
| "obj_set k v (p # ps) = (if fst p = k then (k, v) # ps else p # obj_set k v ps)"

section \<open>The catalog of supported controllers\<close>

record axesMap =
  am_name :: string
  am_indexes :: "nat \<times> nat"

record schema =
  sup_style :: string
  sup_axes :: "axesMap list option"
  sup_buttons :: "string list option"
  sup_primary :: "string option"

definition thumbpad01 :: "axesMap list" where
  "thumbpad01 = [\<lparr>am_name = ''thumbpad'', am_indexes = (0, 1)\<rparr>]"

definition thumbstick01 :: "axesMap list" where
  "thumbstick01 = [\<lparr>am_name = ''thumbstick'', am_indexes = (0, 1)\<rparr>]"

definition sup_daydream :: schema where
  "sup_daydream = \<lparr>sup_style = ''daydream'', sup_axes = Some thumbpad01,
     sup_buttons = Some [''thumbpad''], sup_primary = Some ''thumbpad''\<rparr>"

definition sup_vive :: schema where
  "sup_vive = \<lparr>sup_style = ''vive'', sup_axes = Some thumbpad01,
     sup_buttons = Some [''thumbpad'', ''trigger'', ''grip'', ''menu''],
     sup_primary = Some ''trigger''\<rparr>"

definition sup_oculus_right :: schema where
  "sup_oculus_right = \<lparr>sup_style = ''oculus-touch-right'', sup_axes = Some thumbstick01,
     sup_buttons = Some [''thumbstick'', ''trigger'', ''grip'', ''A'', ''B'', ''thumbrest''],
     sup_primary = Some ''trigger''\<rparr>"

definition sup_oculus_left :: schema where
  "sup_oculus_left = \<lparr>sup_style = ''oculus-touch-left'', sup_axes = Some thumbstick01,
     sup_buttons = Some [''thumbstick'', ''trigger'', ''grip'', ''X'', ''Y'', ''thumbrest''],
     sup_primary = Some ''trigger''\<rparr>"

definition sup_microsoft :: schema where
  "sup_microsoft = \<lparr>sup_style = ''microsoft'',
     sup_axes = Some [\<lparr>am_name = ''thumbstick'', am_indexes = (0, 1)\<rparr>,
                      \<lparr>am_name = ''thumbpad'', am_indexes = (2, 3)\<rparr>],
     sup_buttons = Some [''thumbstick'', ''trigger'', ''grip'', ''menu'', ''thumbpad''],
     sup_primary = Some ''trigger''\<rparr>"

definition sup_gearvr_controller :: schema where
  "sup_gearvr_controller = \<lparr>sup_style = ''gearvr-controller'', sup_axes = Some thumbpad01,
     sup_buttons = Some [''touchpad'', ''trigger''], sup_primary = Some ''touchpad''\<rparr>"

definition sup_gearvr_touchpad :: schema where
  "sup_gearvr_touchpad = \<lparr>sup_style = ''gearvr-touchpad'', sup_axes = Some thumbpad01,
     sup_buttons = Some [''touchpad''], sup_primary = Some ''touchpad''\<rparr>"

definition sup_oculus_remote :: schema where
  "sup_oculus_remote = \<lparr>sup_style = ''oculus-remote'', sup_axes = None,
     sup_buttons = Some [''a'', ''b'', ''d-up'', ''d-down'', ''d-left'', ''d-right''],
     sup_primary = Some ''a''\<rparr>"

definition sup_xbox :: schema where
  "sup_xbox = \<lparr>sup_style = ''xbox'',
     sup_axes = Some [\<lparr>am_name = ''thumbstick-left'', am_indexes = (0, 1)\<rparr>,
                      \<lparr>am_name = ''thumbstick-right'', am_indexes = (2, 3)\<rparr>],
     sup_buttons = Some [''a'', ''b'', ''x'', ''y'', ''bumper-left'', ''bumper-right'',
       ''trigger-left'', ''trigger-right'', ''select'', ''start'', ''thumbstick-left'',
       ''thumbstick-right'', ''d-up'', ''d-down'', ''d-left'', ''d-right''],
     sup_primary = Some ''a''\<rparr>"

text \<open>The object literal \<open>THREE.VRController.supported\<close>, keys in the order written.\<close>

definition supported_literal :: "(string \<times> schema) list" where
  "supported_literal =
    [(''Daydream Controller'', sup_daydream),
     (''OpenVR Gamepad'', sup_vive),
     (''Oculus Touch (Right)'', sup_oculus_right),
     (''Oculus Touch (Left)'', sup_oculus_left),
     (''Spatial Controller (Spatial Interaction Source)'', sup_microsoft),
     (''Gear VR Controller'', sup_gearvr_controller),
     (''Gear VR Touchpad'', sup_gearvr_touchpad),
     (''Oculus Remote'', sup_oculus_remote),
     (''xbox'', sup_xbox)]"

definition xids :: "string list" where
  "xids =
    [''Xbox 360 Controller (XInput STANDARD GAMEPAD)'',
     ''Xbox One Wired Controller (STANDARD GAMEPAD Vendor: 045e Product: 02dd)'',
     ''xinput'']"

text \<open>
  \<open>addSupportedControllers\<close>: every alias is assigned the schema found under
  \<open>xbox\<close>. Were that key missing, the alias would be assigned \<open>undefined\<close>; the
  catalog keeps schemas only, so the model leaves the catalog as it is in that case.
\<close>

fun addSupportedControllers_loop ::
  "string list \<Rightarrow> (string \<times> schema) list \<Rightarrow> (string \<times> schema) list" where
  "addSupportedControllers_loop [] cat = cat"
| "addSupportedControllers_loop (i # ids) cat =
     (case map_of cat ''xbox'' of
        None \<Rightarrow> addSupportedControllers_loop ids cat
      | Some x \<Rightarrow> addSupportedControllers_loop ids (obj_set i x cat))"

definition addSupportedControllers :: "(string \<times> schema) list \<Rightarrow> (string \<times> schema) list" where
  "addSupportedControllers cat = addSupportedControllers_loop xids cat"

definition supported :: "(string \<times> schema) list" where
  "supported = addSupportedControllers supported_literal"

definition supportedKeys :: "string list" where
  "supportedKeys = map fst supported"

text \<open>\<open>THREE.VRController.getSupportedById\<close>, over a given catalog and key list.\<close>

fun getSupportedById_loop ::
  "(string \<times> schema) list \<Rightarrow> string list \<Rightarrow> string \<Rightarrow> schema option" where
  "getSupportedById_loop cat [] ident = None"
| "getSupportedById_loop cat (key # keys) ident =
     (if indexOf ident key \<ge> 0 then map_of cat key
      else getSupportedById_loop cat keys ident)"

definition getSupportedById :: "string \<Rightarrow> schema option" where
  "getSupportedById ident = getSupportedById_loop supported supportedKeys ident"

text \<open>The spec's words: a key occurs as a substring of the identifier.\<close>

definition is_substring :: "string \<Rightarrow> string \<Rightarrow> bool" where
  "is_substring key ident = (\<exists>ps ss. ident = ps @ key @ ss)"

section \<open>The device handle\<close>

text \<open>
  The host's Gamepad object, as far as the controller reads it. \<open>gp_hapticActuators\<close>
  is the number of entries of \<open>hapticActuators\<close>; a missing array counts as none.
  A pose array that is \<open>null\<close> is \<open>None\<close>.
\<close>

type_synonym vec3 = "real \<times> real \<times> real"
type_synonym quat = "real \<times> real \<times> real \<times> real"
type_synonym mat4 = "real list"

record gamepad_button =
  gb_value :: real
  gb_touched :: bool
  gb_pressed :: bool

record gamepad_pose =
  hasOrientation :: bool
  hasPosition :: bool
  orientation :: "quat option"
  position :: "vec3 option"

record gamepad =
  gp_id :: string
  gp_index :: nat
  gp_hand :: string
  gp_axes :: "real list"
  gp_buttons :: "gamepad_button list"
  gp_pose :: "gamepad_pose option"
  gp_hapticActuators :: nat

text \<open>Reading an array element: \<open>undefined\<close> beyond the end.\<close>

definition at_index :: "'a list \<Rightarrow> nat \<Rightarrow> 'a option" where
  "at_index xs i = (if i < length xs then Some (xs ! i) else None)"

text \<open>Truthiness of an axis value: a number other than zero.\<close>

definition truthy :: "real option \<Rightarrow> bool" where
  "truthy v = (case v of None \<Rightarrow> False | Some x \<Rightarrow> x \<noteq> 0)"

section \<open>The controller\<close>

record dpad_entry =
  dp_index :: nat
  dp_isPressed :: bool

record axis =
  ax_name :: string
  ax_indexes :: "nat \<times> nat"
  ax_value :: "real option \<times> real option"
  ax_isThumbstick :: bool
  ax_dpad :: "(string \<times> dpad_entry) list option"

record button =
  b_name :: string
  b_value :: real
  b_isTouched :: bool
  b_isPressed :: bool
  b_isPrimary :: bool

text \<open>
  A vibration channel: the array of pending commands \<open>[time, intensity]\<close> with its
  \<open>name\<close> and \<open>intensity\<close> properties. An intensity that is not of type number is
  \<open>None\<close>.
\<close>

record channel =
  ch_name :: string
  ch_intensity :: "real option"
  ch_queue :: "(real \<times> real option) list"

text \<open>The arm model's fields (\<open>OrientationArmModel\<close>).\<close>

record armModel =
  isLeftHanded :: bool
  controllerQ :: quat
  lastControllerQ :: quat
  headQ :: quat
  headPos :: vec3
  elbowPos :: vec3
  wristPos :: vec3
  time :: "real option"
  lastTime :: "real option"
  rootQ :: quat
  pose_orientation :: quat
  pose_position :: vec3

record controller =
  c_style :: string
  c_name :: string
  c_dof :: nat
  c_axisThreshold :: real
  c_axisPressThreshold :: real
  c_hand :: string
  c_axes :: "axis list"
  c_axes_byName :: "(string \<times> nat) list"
  c_buttons :: "button list"
  c_buttonNamePrimary :: string
  c_vibeChannels :: "channel list"
  c_vibe_intensity :: real
  c_vibe_prior :: real
  c_vibe_lastCommanded :: "real option"
  c_hasPosed :: bool
  c_visible :: bool
  c_quaternion :: quat
  c_position :: vec3
  c_scale :: vec3
  c_matrix :: mat4
  c_matrixWorldNeedsUpdate :: bool
  c_armModel :: "armModel option"
  c_standingMatrix :: mat4
  c_head_position :: vec3
  c_head_quaternion :: quat
  c_gamepad_index :: nat

definition q_identity :: quat where
  "q_identity = (0, 0, 0, 1)"

definition m_identity :: mat4 where
  "m_identity = [1, 0, 0, 0,  0, 1, 0, 0,  0, 0, 1, 0,  0, 0, 0, 1]"

subsection \<open>The dead-zone filter\<close>

text \<open>
  \<open>filterAxis\<close>: \<open>Math.abs(undefined)\<close> is NaN and no NaN exceeds the threshold, so
  an \<open>undefined\<close> value is filtered to 0.
\<close>

definition filterAxis :: "real \<Rightarrow> real option \<Rightarrow> real" where
  "filterAxis axisThreshold v =
     (case v of None \<Rightarrow> 0 | Some x \<Rightarrow> if \<bar>x\<bar> > axisThreshold then x else 0)"

text \<open>
  The thumbstick block of the constructor and of \<open>pollForChanges\<close>: the filtered
  values replace the raw ones only if both are falsy.
\<close>

definition filterPair ::
  "real \<Rightarrow> real option \<Rightarrow> real option \<Rightarrow> real option \<times> real option" where
  "filterPair axisThreshold axisX axisY =
     (let filteredX = filterAxis axisThreshold axisX;
          filteredY = filterAxis axisThreshold axisY
      in if filteredX = 0 \<and> filteredY = 0 then (Some filteredX, Some filteredY)
         else (axisX, axisY))"

subsection \<open>Construction\<close>

definition new_dpad :: "nat \<Rightarrow> nat \<Rightarrow> (string \<times> dpad_entry) list" where
  "new_dpad i0 i1 =
    [(''up'', \<lparr>dp_index = i1, dp_isPressed = False\<rparr>),
     (''down'', \<lparr>dp_index = i1, dp_isPressed = False\<rparr>),
     (''left'', \<lparr>dp_index = i0, dp_isPressed = False\<rparr>),
     (''right'', \<lparr>dp_index = i0, dp_isPressed = False\<rparr>)]"

text \<open>One step of \<open>supported.axes.forEach\<close>.\<close>

definition supported_axis :: "real \<Rightarrow> real list \<Rightarrow> axesMap \<Rightarrow> axis" where
  "supported_axis axisThreshold raw axesMap =
     (let i0 = fst (am_indexes axesMap);
          i1 = snd (am_indexes axesMap);
          axisX = at_index raw i0;
          axisY = at_index raw i1;
          isThumbstick = startsWith (am_name axesMap) ''thumbstick''
      in \<lparr>ax_name = am_name axesMap,
          ax_indexes = am_indexes axesMap,
          ax_value = (if isThumbstick then filterPair axisThreshold axisX axisY
                      else (axisX, axisY)),
          ax_isThumbstick = isThumbstick,
          ax_dpad = (if isThumbstick then Some (new_dpad i0 i1) else None)\<rparr>)"

text \<open>
  One step of the loop \<open>for (i = 0; i < gamepad.axes.length / 2; i++)\<close>; the loop
  runs for \<open>i\<close> below half the length rounded up.
\<close>

definition generic_axis :: "real list \<Rightarrow> nat \<Rightarrow> axis" where
  "generic_axis raw i =
     \<lparr>ax_name = ''axes_'' @ string_of_nat (i + 1),
      ax_indexes = (i * 2, i * 2 + 1),
      ax_value = (at_index raw (i * 2), at_index raw (i * 2 + 1)),
      ax_isThumbstick = False,
      ax_dpad = None\<rparr>"

definition initial_axes :: "real \<Rightarrow> schema option \<Rightarrow> real list \<Rightarrow> axis list" where
  "initial_axes axisThreshold schm raw =
     (case (case schm of None \<Rightarrow> None | Some s \<Rightarrow> sup_axes s) of
        Some axesMaps \<Rightarrow> map (supported_axis axisThreshold raw) axesMaps
      | None \<Rightarrow> map (generic_axis raw) [0 ..< (length raw + 1) div 2])"

text \<open>
  \<open>axes.byName\<close>, from a name to the position of the axis pair stored under it. Only
  the loop over the schema's axes fills it.
\<close>

definition initial_axes_byName :: "schema option \<Rightarrow> (string \<times> nat) list" where
  "initial_axes_byName schm =
     (case (case schm of None \<Rightarrow> None | Some s \<Rightarrow> sup_axes s) of
        Some axesMaps \<Rightarrow>
          fold (\<lambda>i m. obj_set (am_name (axesMaps ! i)) i m) [0 ..< length axesMaps] []
      | None \<Rightarrow> [])"

definition default_button :: "nat \<Rightarrow> gamepad_button \<Rightarrow> button" where
  "default_button i b =
     \<lparr>b_name = ''button_'' @ string_of_nat i,
      b_value = gb_value b,
      b_isTouched = gb_touched b,
      b_isPressed = gb_pressed b,
      b_isPrimary = False\<rparr>"

definition default_buttons :: "gamepad_button list \<Rightarrow> button list" where
  "default_buttons bs = map (\<lambda>i. default_button i (bs ! i)) [0 ..< length bs]"

text \<open>
  \<open>supported.buttons.forEach\<close>: \<open>buttons[i].name = buttonName\<close> throws a TypeError
  when the device has no button \<open>i\<close>.
\<close>

fun rename_buttons :: "string list \<Rightarrow> button list \<Rightarrow> js_error + button list" where
  "rename_buttons [] bs = Inr bs"
| "rename_buttons (n # ns) [] = Inl TypeError"
| "rename_buttons (n # ns) (b # bs) =
     (case rename_buttons ns bs of
        Inl e \<Rightarrow> Inl e
      | Inr bs' \<Rightarrow> Inr (b\<lparr>b_name := n\<rparr> # bs'))"

text \<open>
  \<open>buttons.byName\<close>: the object built by \<open>buttons.forEach\<close>, from a name to the
  position of the button object stored under it (a later button of the same name
  replaces an earlier one).
\<close>

definition buttons_byName :: "button list \<Rightarrow> (string \<times> nat) list" where
  "buttons_byName bs =
     fold (\<lambda>i m. obj_set (b_name (bs ! i)) i m) [0 ..< length bs] []"

definition mark_primary :: "string \<Rightarrow> button list \<Rightarrow> button list" where
  "mark_primary buttonNamePrimary bs =
     (case map_of (buttons_byName bs) buttonNamePrimary of
        None \<Rightarrow> bs
      | Some i \<Rightarrow> bs[i := (bs ! i)\<lparr>b_isPrimary := True\<rparr>])"

definition new_vibeChannel :: "string \<Rightarrow> channel" where
  "new_vibeChannel n = \<lparr>ch_name = n, ch_intensity = Some 0, ch_queue = []\<rparr>"

definition dof_of :: "gamepad_pose option \<Rightarrow> nat" where
  "dof_of p =
     (case p of None \<Rightarrow> 0
      | Some q \<Rightarrow> 3 * ((if hasOrientation q then 1 else 0) + (if hasPosition q then 1 else 0)))"

text \<open>
  The constructor \<open>THREE.VRController\<close>, for the schema \<open>schm\<close> that
  \<open>getSupportedById\<close> returned (\<open>None\<close> is \<open>undefined\<close>).
\<close>

definition VRController_with :: "schema option \<Rightarrow> gamepad \<Rightarrow> js_error + controller" where
  "VRController_with schm gamepad =
     (let axisThreshold = 0.2;
          buttons0 = default_buttons (gp_buttons gamepad);
          renamed = (case (case schm of None \<Rightarrow> None | Some s \<Rightarrow> sup_buttons s) of
                       None \<Rightarrow> Inr buttons0
                     | Some names \<Rightarrow> rename_buttons names buttons0);
          buttonNamePrimary =
            (case (case schm of None \<Rightarrow> None | Some s \<Rightarrow> sup_primary s) of
               Some n \<Rightarrow> n
             | None \<Rightarrow> if length (gp_buttons gamepad) > 1 then ''button_1'' else ''button_0'')
      in case renamed of
           Inl e \<Rightarrow> Inl e
         | Inr buttons1 \<Rightarrow> Inr
             \<lparr>c_style = (case schm of None \<Rightarrow> [] | Some s \<Rightarrow> sup_style s),
              c_name = gp_id gamepad,
              c_dof = dof_of (gp_pose gamepad),
              c_axisThreshold = axisThreshold,
              c_axisPressThreshold = 0.6,
              c_hand = gp_hand gamepad,
              c_axes = initial_axes axisThreshold schm (gp_axes gamepad),
              c_axes_byName = initial_axes_byName schm,
              c_buttons = mark_primary buttonNamePrimary buttons1,
              c_buttonNamePrimary = buttonNamePrimary,
              c_vibeChannels = [new_vibeChannel []],
              c_vibe_intensity = 0,
              c_vibe_prior = 0,
              c_vibe_lastCommanded = None,
              c_hasPosed = False,
              c_visible = True,
              c_quaternion = q_identity,
              c_position = (0, 0, 0),
              c_scale = (1, 1, 1),
              c_matrix = m_identity,
              c_matrixWorldNeedsUpdate = False,
              c_armModel = None,
              c_standingMatrix = m_identity,
              c_head_position = (0, 0, 0),
              c_head_quaternion = q_identity,
              c_gamepad_index = gp_index gamepad\<rparr>)"

definition VRController :: "gamepad \<Rightarrow> js_error + controller" where
  "VRController gamepad = VRController_with (getSupportedById (gp_id gamepad)) gamepad"

section \<open>Change detection: \<open>pollForChanges\<close>\<close>

text \<open>
  A dispatched event: its \<open>type\<close> string and the value it carries. The controller an
  event of type \<open>disconnected\<close> carries is named by its object reference.
\<close>

datatype payload =
    NoPayload
  | Hand string
  | Axes real real
  | Value real
  | Controller nat

datatype event = Event (ev_type: string) (ev_payload: payload)

definition eventAction :: "bool \<Rightarrow> string" where
  "eventAction b = (if b then ''began'' else ''ended'')"

text \<open>
  One step of \<open>for (d in axisDPad)\<close>: \<open>v\<close> is \<open>gamepad.axes[axis.index]\<close>, and
  \<open>!!axisPressed\<close> holds when the selected value is a number other than zero. For a
  key other than the four directions \<open>axisPressed\<close> keeps the value of the previous
  step, which the parameter \<open>prev\<close> carries.
\<close>

definition dpad_axisPressed :: "real \<Rightarrow> string \<Rightarrow> real option \<Rightarrow> real option \<Rightarrow> real option" where
  "dpad_axisPressed axisPressThreshold d v prev =
     (if d = ''right'' \<or> d = ''down'' then
        (case v of Some x \<Rightarrow> if x > axisPressThreshold then v else Some 0 | None \<Rightarrow> Some 0)
      else if d = ''left'' \<or> d = ''up'' then
        (case v of Some x \<Rightarrow> if x < - axisPressThreshold then v else Some 0 | None \<Rightarrow> Some 0)
      else prev)"

fun poll_dpad ::
  "real \<Rightarrow> string \<Rightarrow> real list \<Rightarrow> real option \<Rightarrow> (string \<times> dpad_entry) list
    \<Rightarrow> event list \<times> (string \<times> dpad_entry) list" where
  "poll_dpad thr name raw prev [] = ([], [])"
| "poll_dpad thr name raw prev ((d, entry) # rest) =
     (let axisPressed = dpad_axisPressed thr d (at_index raw (dp_index entry)) prev;
          pressed = truthy axisPressed;
          (evs, rest') = poll_dpad thr name raw axisPressed rest
      in if dp_isPressed entry \<noteq> pressed
         then (Event (name @ '' '' @ d @ '' press '' @ eventAction pressed) NoPayload # evs,
               (d, entry\<lparr>dp_isPressed := pressed\<rparr>) # rest')
         else (evs, (d, entry) # rest'))"

text \<open>
  The values \<open>axisX\<close> and \<open>axisY\<close> that the loop over \<open>axes\<close> compares with the
  stored pair: the raw values, after the thumbstick block.
\<close>

definition fresh_pair :: "real \<Rightarrow> real list \<Rightarrow> axis \<Rightarrow> real option \<times> real option" where
  "fresh_pair axisThreshold raw a =
     (let rawX = at_index raw (fst (ax_indexes a));
          rawY = at_index raw (snd (ax_indexes a))
      in if ax_isThumbstick a then filterPair axisThreshold rawX rawY else (rawX, rawY))"

text \<open>
  The array \<open>axesValues\<close> the event carries: the Y value is multiplied by \<open>-1\<close> for
  the style \<open>vive\<close> and the name \<open>thumbpad\<close>. (Both values are numbers where this is
  called.)
\<close>

definition axesValues :: "string \<Rightarrow> string \<Rightarrow> real option \<times> real option \<Rightarrow> payload" where
  "axesValues style name v =
     (let x = (case fst v of Some r \<Rightarrow> r | None \<Rightarrow> 0);
          y = (case snd v of Some r \<Rightarrow> r | None \<Rightarrow> 0)
      in Axes x (if style = ''vive'' \<and> name = ''thumbpad'' then y * (- 1) else y))"

text \<open>
  The body of the loop over \<open>axes\<close> for one axis pair. Nothing happens unless both
  raw values are truthy.
\<close>

definition poll_axis :: "string \<Rightarrow> real \<Rightarrow> real \<Rightarrow> real list \<Rightarrow> axis \<Rightarrow> event list \<times> axis" where
  "poll_axis style axisThreshold axisPressThreshold raw a =
     (let i0 = fst (ax_indexes a);
          i1 = snd (ax_indexes a)
      in if truthy (at_index raw i0) \<and> truthy (at_index raw i1) then
           (let axesVal = ax_value a;
                fresh = fresh_pair axisThreshold raw a;
                changed = (fst axesVal \<noteq> fst fresh \<or> snd axesVal \<noteq> snd fresh);
                a1 = (if changed then a\<lparr>ax_value := fresh\<rparr> else a);
                evs1 = (if changed
                        then [Event (ax_name a @ '' axes changed'')
                                (axesValues style (ax_name a) fresh)]
                        else []);
                (evs2, a2) =
                  (if ax_isThumbstick a then
                     (case ax_dpad a1 of
                        None \<Rightarrow> ([], a1)
                      | Some dp \<Rightarrow>
                          (let (evs, dp') = poll_dpad axisPressThreshold (ax_name a) raw None dp
                           in (evs, a1\<lparr>ax_dpad := Some dp'\<rparr>)))
                   else ([], a1))
            in (evs1 @ evs2, a2))
         else ([], a))"

fun poll_axes :: "string \<Rightarrow> real \<Rightarrow> real \<Rightarrow> real list \<Rightarrow> axis list \<Rightarrow> event list \<times> axis list" where
  "poll_axes style t1 t2 raw [] = ([], [])"
| "poll_axes style t1 t2 raw (a # as) =
     (let (evs, a') = poll_axis style t1 t2 raw a;
          (evs', as') = poll_axes style t1 t2 raw as
      in (evs @ evs', a' # as'))"

text \<open>The body of \<open>buttons.forEach\<close> for one button and its raw record.\<close>

definition poll_button :: "gamepad_button \<Rightarrow> button \<Rightarrow> event list \<times> button" where
  "poll_button raw b =
     (let isPrimary = b_isPrimary b;
          valueChanged = (b_value b \<noteq> gb_value raw);
          b1 = (if valueChanged then b\<lparr>b_value := gb_value raw\<rparr> else b);
          evs1 = (if valueChanged
                  then Event (b_name b @ '' value changed'') (Value (b_value b1))
                       # (if isPrimary
                          then [Event ''primary value changed'' (Value (b_value b1))] else [])
                  else []);
          touchChanged = (b_isTouched b1 \<noteq> gb_touched raw);
          b2 = (if touchChanged then b1\<lparr>b_isTouched := gb_touched raw\<rparr> else b1);
          evs2 = (if touchChanged
                  then Event (b_name b @ '' touch '' @ eventAction (b_isTouched b2)) NoPayload
                       # (if isPrimary
                          then [Event (''primary touch '' @ eventAction (b_isTouched b2)) NoPayload]
                          else [])
                  else []);
          pressChanged = (b_isPressed b2 \<noteq> gb_pressed raw);
          b3 = (if pressChanged then b2\<lparr>b_isPressed := gb_pressed raw\<rparr> else b2);
          evs3 = (if pressChanged
                  then Event (b_name b @ '' press '' @ eventAction (b_isPressed b3)) NoPayload
                       # (if isPrimary
                          then [Event (''primary press '' @ eventAction (b_isPressed b3)) NoPayload]
                          else [])
                  else [])
      in (evs1 @ evs2 @ evs3, b3))"

text \<open>
  \<open>buttons.forEach\<close>: button \<open>i\<close> is compared with \<open>gamepad.buttons[i]\<close>; reading
  \<open>.value\<close> of a missing raw button throws a TypeError.
\<close>

fun poll_buttons ::
  "gamepad_button list \<Rightarrow> nat \<Rightarrow> button list \<Rightarrow> js_error + event list \<times> button list" where
  "poll_buttons raw i [] = Inr ([], [])"
| "poll_buttons raw i (b # bs) =
     (case at_index raw i of
        None \<Rightarrow> Inl TypeError
      | Some r \<Rightarrow>
          (let (evs, b') = poll_button r b
           in case poll_buttons raw (Suc i) bs of
                Inl e \<Rightarrow> Inl e
              | Inr (evs', bs') \<Rightarrow> Inr (evs @ evs', b' # bs')))"

text \<open>
  \<open>pollForChanges\<close>: \<open>gamepad\<close> is the present state of the handle the controller
  was built from. The result is the events dispatched on the controller, in order, and
  the controller afterwards.
\<close>

definition pollForChanges :: "gamepad \<Rightarrow> controller \<Rightarrow> js_error + event list \<times> controller" where
  "pollForChanges gamepad c =
     (let handChanged = (c_hand c \<noteq> gp_hand gamepad);
          c1 = (if handChanged then c\<lparr>c_hand := gp_hand gamepad\<rparr> else c);
          evs0 = (if handChanged then [Event ''hand changed'' (Hand (c_hand c1))] else []);
          (evs1, axes') = poll_axes (c_style c1) (c_axisThreshold c1) (c_axisPressThreshold c1)
                            (gp_axes gamepad) (c_axes c1)
      in case poll_buttons (gp_buttons gamepad) 0 (c_buttons c1) of
           Inl e \<Rightarrow> Inl e
         | Inr (evs2, buttons') \<Rightarrow>
             Inr (evs0 @ evs1 @ evs2, c1\<lparr>c_axes := axes', c_buttons := buttons'\<rparr>))"

section \<open>Vibration\<close>

text \<open>An argument of \<open>setVibe\<close> or of the scheduler's \<open>set\<close>, by its \<open>typeof\<close>.\<close>

datatype jsval = Undefined | Str string | Num real | Other

definition number_of :: "jsval \<Rightarrow> real option" where
  "number_of v = (case v of Num x \<Rightarrow> Some x | _ \<Rightarrow> None)"

definition VIBE_TIME_MAX :: real where
  "VIBE_TIME_MAX = 5 * 1000"

text \<open>
  The object \<open>o\<close> that \<open>setVibe\<close> returns: the channel it writes to (by its position
  in \<open>vibeChannels\<close>; channels are never removed) and its time cursor.
\<close>

record scheduler =
  sch_channel :: nat
  sch_cursor :: real

text \<open>\<open>Array.prototype.find\<close> by channel name, as a position.\<close>

fun find_channel :: "string \<Rightarrow> channel list \<Rightarrow> nat \<Rightarrow> nat option" where
  "find_channel n [] i = None"
| "find_channel n (ch # chs) i = (if ch_name ch = n then Some i else find_channel n chs (Suc i))"

text \<open>
  \<open>setVibe\<close> at clock reading \<open>now\<close>. The result is \<open>None\<close> (the function returns
  \<open>undefined\<close>) unless the name is a string after the first test.
\<close>

definition setVibe :: "real \<Rightarrow> jsval \<Rightarrow> jsval \<Rightarrow> controller \<Rightarrow> scheduler option \<times> controller" where
  "setVibe now name0 intensity0 c =
     (let shorthand = ((case name0 of Num _ \<Rightarrow> True | _ \<Rightarrow> False) \<and> intensity0 = Undefined);
          intensity = (if shorthand then name0 else intensity0);
          name = (if shorthand then Str [] else name0)
      in case name of
           Str n \<Rightarrow>
             (let chs = c_vibeChannels c;
                  (i, chs1) = (case find_channel n chs 0 of
                                 None \<Rightarrow> (length chs, chs @ [new_vibeChannel n])
                               | Some j \<Rightarrow> (j, chs[j := (chs ! j)\<lparr>ch_queue := []\<rparr>]));
                  chs2 = (case intensity of
                            Num x \<Rightarrow> chs1[i := (chs1 ! i)\<lparr>ch_intensity := Some x\<rparr>]
                          | _ \<Rightarrow> chs1)
              in (Some \<lparr>sch_channel = i, sch_cursor = now\<rparr>, c\<lparr>c_vibeChannels := chs2\<rparr>))
         | _ \<Rightarrow> (None, c))"

definition sched_set :: "scheduler \<Rightarrow> jsval \<Rightarrow> controller \<Rightarrow> controller" where
  "sched_set sch intensity c =
     (let chs = c_vibeChannels c; i = sch_channel sch
      in c\<lparr>c_vibeChannels :=
            chs[i := (chs ! i)\<lparr>ch_queue := ch_queue (chs ! i) @ [(sch_cursor sch, number_of intensity)]\<rparr>]\<rparr>)"

definition sched_wait :: "scheduler \<Rightarrow> real \<Rightarrow> scheduler" where
  "sched_wait sch duration = sch\<lparr>sch_cursor := sch_cursor sch + duration\<rparr>"

text \<open>
  The loop \<open>while (channel.length && now > channel[0][0])\<close>: the current intensity and
  the commands left.
\<close>

fun drain :: "real \<Rightarrow> real option \<Rightarrow> (real \<times> real option) list
    \<Rightarrow> real option \<times> (real \<times> real option) list" where
  "drain now cur [] = (cur, [])"
| "drain now cur ((t, v) # q) = (if now > t then drain now v q else (cur, (t, v) # q))"

definition render_channel :: "real \<Rightarrow> channel \<Rightarrow> channel" where
  "render_channel now ch =
     (let (cur, q) = drain now (ch_intensity ch) (ch_queue ch)
      in ch\<lparr>ch_intensity := (case cur of None \<Rightarrow> Some 0 | Some x \<Rightarrow> Some x), ch_queue := q\<rparr>)"

text \<open>
  \<open>+channel.intensity\<close>. After \<open>render_channel\<close> every intensity is a number; the
  value given here for one that is not is never read.
\<close>

definition unary_plus :: "real option \<Rightarrow> real" where
  "unary_plus v = (case v of Some x \<Rightarrow> x | None \<Rightarrow> 0)"

definition renderVibes :: "real \<Rightarrow> controller \<Rightarrow> real \<times> controller" where
  "renderVibes now c =
     (let chs = map (render_channel now) (c_vibeChannels c);
          total = min 1 (max 0 (fold (\<lambda>ch acc. acc + unary_plus (ch_intensity ch)) chs 0))
      in (total, c\<lparr>c_vibeChannels := chs, c_vibe_intensity := total\<rparr>))"

text \<open>
  \<open>applyVibes\<close>, with the two clock readings it takes (one inside \<open>renderVibes\<close>).
  The result holds the pulse sent to the first actuator, if any, as (intensity, duration).
  A \<open>lastCommanded\<close> still \<open>undefined\<close> makes the time test false (NaN).
\<close>

definition applyVibes ::
  "real \<Rightarrow> real \<Rightarrow> gamepad \<Rightarrow> controller \<Rightarrow> (real \<times> real) option \<times> controller" where
  "applyVibes now_render now gamepad c =
     (if gp_hapticActuators gamepad > 0 then
        (let (renderedIntensity, c1) = renderVibes now_render c
         in if renderedIntensity \<noteq> c_vibe_prior c1
               \<or> (case c_vibe_lastCommanded c1 of
                     None \<Rightarrow> False
                   | Some l \<Rightarrow> now - l > VIBE_TIME_MAX / 2)
            then (Some (renderedIntensity, VIBE_TIME_MAX),
                  c1\<lparr>c_vibe_lastCommanded := Some now, c_vibe_prior := renderedIntensity\<rparr>)
            else (None, c1))
      else (None, c))"

section \<open>The arm model\<close>

text \<open>
  The operations of three.js that the arm model and the pose computation call are not part
  of this repository's sources; they are parameters of the model. The Euler angles are
  in the order YXZ, which is the only order the code asks for. \<open>inverse\<close>, \<open>multiply\<close>,
  \<open>slerp\<close> and \<open>applyQuaternion\<close> change the object they are called on; the model
  rebinds the name instead.
\<close>

record three_math =
  euler_of_quaternion :: "quat \<Rightarrow> vec3"
  quaternion_of_euler :: "vec3 \<Rightarrow> quat"
  q_slerp :: "quat \<Rightarrow> quat \<Rightarrow> real \<Rightarrow> quat"
  q_inverse :: "quat \<Rightarrow> quat"
  q_multiply :: "quat \<Rightarrow> quat \<Rightarrow> quat"
  v_applyQuaternion :: "vec3 \<Rightarrow> quat \<Rightarrow> vec3"
  v_angleTo :: "vec3 \<Rightarrow> vec3 \<Rightarrow> real"
  radToDeg :: "real \<Rightarrow> real"
  m_compose :: "vec3 \<Rightarrow> quat \<Rightarrow> vec3 \<Rightarrow> mat4"
  m_multiplyMatrices :: "mat4 \<Rightarrow> mat4 \<Rightarrow> mat4"

definition v_add :: "vec3 \<Rightarrow> vec3 \<Rightarrow> vec3" where
  "v_add a b = (case a of (ax, ay, az) \<Rightarrow> case b of (bx, by, bz) \<Rightarrow> (ax + bx, ay + by, az + bz))"

definition v_multiplyScalar :: "vec3 \<Rightarrow> real \<Rightarrow> vec3" where
  "v_multiplyScalar a k = (case a of (ax, ay, az) \<Rightarrow> (ax * k, ay * k, az * k))"

definition HEAD_ELBOW_OFFSET :: vec3 where "HEAD_ELBOW_OFFSET = (0.155, - 0.465, - 0.15)"
definition ELBOW_WRIST_OFFSET :: vec3 where "ELBOW_WRIST_OFFSET = (0, 0, - 0.25)"
definition WRIST_CONTROLLER_OFFSET :: vec3 where "WRIST_CONTROLLER_OFFSET = (0, 0, 0.05)"
definition ARM_EXTENSION_OFFSET :: vec3 where "ARM_EXTENSION_OFFSET = (- 0.08, 0.14, 0.08)"
definition ELBOW_BEND_RATIO :: real where "ELBOW_BEND_RATIO = 0.4"
definition EXTENSION_RATIO_WEIGHT :: real where "EXTENSION_RATIO_WEIGHT = 0.4"
definition MIN_ANGULAR_SPEED :: real where "MIN_ANGULAR_SPEED = 0.61"

definition OrientationArmModel :: armModel where
  "OrientationArmModel =
     \<lparr>isLeftHanded = False,
      controllerQ = q_identity,
      lastControllerQ = q_identity,
      headQ = q_identity,
      headPos = (0, 0, 0),
      elbowPos = (0, 0, 0),
      wristPos = (0, 0, 0),
      time = None,
      lastTime = None,
      rootQ = q_identity,
      pose_orientation = q_identity,
      pose_position = (0, 0, 0)\<rparr>"

definition setControllerOrientation :: "quat \<Rightarrow> armModel \<Rightarrow> armModel" where
  "setControllerOrientation quaternion m =
     m\<lparr>lastControllerQ := controllerQ m, controllerQ := quaternion\<rparr>"

definition setHeadOrientation :: "quat \<Rightarrow> armModel \<Rightarrow> armModel" where
  "setHeadOrientation quaternion m = m\<lparr>headQ := quaternion\<rparr>"

definition setHeadPosition :: "vec3 \<Rightarrow> armModel \<Rightarrow> armModel" where
  "setHeadPosition p m = m\<lparr>headPos := p\<rparr>"

definition getHeadYawOrientation :: "three_math \<Rightarrow> armModel \<Rightarrow> quat" where
  "getHeadYawOrientation T m =
     (case euler_of_quaternion T (headQ m) of
        (ex, ey, ez) \<Rightarrow> quaternion_of_euler T (0, ey, 0))"

definition clamp :: "real \<Rightarrow> real \<Rightarrow> real \<Rightarrow> real" where
  "clamp v lo hi = min (max v lo) hi"

definition quatAngle :: "three_math \<Rightarrow> quat \<Rightarrow> quat \<Rightarrow> real" where
  "quatAngle T q1 q2 =
     v_angleTo T (v_applyQuaternion T (0, 0, - 1) q1) (v_applyQuaternion T (0, 0, - 1) q2)"

text \<open>
  The test \<open>controllerAngularSpeed > MIN_ANGULAR_SPEED\<close>, where the speed is
  \<open>angleDelta / timeDelta\<close>: a division by zero gives an infinity of the sign of
  \<open>angleDelta\<close>, or NaN for \<open>0 / 0\<close>, and only the positive infinity passes the test.
\<close>

definition speed_exceeds :: "real \<Rightarrow> real \<Rightarrow> bool" where
  "speed_exceeds angleDelta timeDelta =
     (if timeDelta = 0 then angleDelta > 0
      else angleDelta / timeDelta > MIN_ANGULAR_SPEED)"

text \<open>
  \<open>OrientationArmModel.prototype.update\<close> at clock reading \<open>now\<close>. In
  \<open>this.time - this.lastTime\<close> a \<open>lastTime\<close> that is still \<open>null\<close> counts as 0.
  \<open>wristQ.inverse()\<close> inverts \<open>wristQ\<close> itself, so the wrist offset is rotated by the
  inverted quaternion.
\<close>

definition armModel_update :: "three_math \<Rightarrow> real \<Rightarrow> armModel \<Rightarrow> armModel" where
  "armModel_update T now m =
     (let headYawQ = getHeadYawOrientation T m;
          timeDelta = (now - (case lastTime m of None \<Rightarrow> 0 | Some l \<Rightarrow> l)) / 1000;
          angleDelta = quatAngle T (lastControllerQ m) (controllerQ m);
          rootQ1 = (if speed_exceeds angleDelta timeDelta
                    then q_slerp T (rootQ m) headYawQ (angleDelta / 10)
                    else headYawQ);
          controllerEuler = euler_of_quaternion T (controllerQ m);
          controllerXDeg = radToDeg T (fst controllerEuler);
          extensionRatio = clamp ((controllerXDeg - 11) / (50 - 11)) 0 1;
          controllerCameraQ = q_multiply T (q_inverse T rootQ1) (controllerQ m);
          elbowOffset = v_multiplyScalar ARM_EXTENSION_OFFSET extensionRatio;
          elbowPos1 = v_add (v_add (headPos m) HEAD_ELBOW_OFFSET) elbowOffset;
          totalAngle = quatAngle T controllerCameraQ q_identity;
          totalAngleDeg = radToDeg T totalAngle;
          lerpSuppression = 1 - (totalAngleDeg / 180) ^ 4;
          elbowRatio = ELBOW_BEND_RATIO;
          wristRatio = 1 - ELBOW_BEND_RATIO;
          lerpValue = lerpSuppression *
                        (elbowRatio + wristRatio * extensionRatio * EXTENSION_RATIO_WEIGHT);
          wristQ = q_inverse T (q_slerp T q_identity controllerCameraQ lerpValue);
          invWristQ = wristQ;
          elbowQ = q_multiply T controllerCameraQ invWristQ;
          wristPos1 = v_add (v_applyQuaternion T
                        (v_add (v_applyQuaternion T WRIST_CONTROLLER_OFFSET wristQ)
                               ELBOW_WRIST_OFFSET) elbowQ) elbowPos1;
          offset = v_multiplyScalar ARM_EXTENSION_OFFSET extensionRatio;
          position1 = v_applyQuaternion T (v_add wristPos1 offset) rootQ1
      in m\<lparr>time := Some now,
           rootQ := rootQ1,
           elbowPos := elbowPos1,
           wristPos := wristPos1,
           pose_orientation := controllerQ m,
           pose_position := position1,
           lastTime := Some now\<rparr>)"

section \<open>The registry, connection and the per-tick update\<close>

text \<open>
  Controllers are objects: \<open>w_heap\<close> maps an object reference to the controller's state,
  and \<open>w_controllers\<close> is the array \<open>THREE.VRController.controllers\<close>, from a slot
  index to a reference (\<open>None\<close> is \<open>undefined\<close>). \<open>w_dispatched\<close> lists the events
  dispatched so far with the object each was dispatched on, and \<open>w_pulses\<close> the haptic
  pulses sent, by the handle's index.
\<close>

datatype target = OnController nat | OnWindow

record world =
  w_controllers :: "nat \<Rightarrow> nat option"
  w_heap :: "nat \<Rightarrow> controller option"
  w_next :: nat
  w_dispatched :: "(target \<times> event) list"
  w_pulses :: "(nat \<times> real \<times> real) list"

definition dispatch :: "target \<Rightarrow> event list \<Rightarrow> world \<Rightarrow> world" where
  "dispatch tg evs w = w\<lparr>w_dispatched := w_dispatched w @ map (\<lambda>e. (tg, e)) evs\<rparr>"

definition onGamepadConnect :: "gamepad \<Rightarrow> world \<Rightarrow> js_error + world" where
  "onGamepadConnect gamepad w =
     (case VRController gamepad of
        Inl e \<Rightarrow> Inl e
      | Inr controller \<Rightarrow>
          (let r = w_next w;
               w1 = w\<lparr>w_next := Suc r,
                      w_controllers := (w_controllers w)(gp_index gamepad \<mapsto> r)\<rparr>;
               w2 = (if gp_hapticActuators gamepad > 0
                     then w1\<lparr>w_pulses := w_pulses w1 @ [(gp_index gamepad, 0.1, 300)]\<rparr>
                     else w1);
               w3 = w2\<lparr>w_heap := (w_heap w2)(r \<mapsto> controller\<lparr>c_visible := False\<rparr>)\<rparr>
           in Inr (dispatch OnWindow [Event ''vr controller connected'' (Controller r)] w3)))"

text \<open>
  \<open>onGamepadDisconnect(gamepad, i)\<close>: the controller is looked up in the registry under
  the handle's index (under \<open>i\<close> when no handle is given); dispatching on a missing
  controller throws a TypeError.
\<close>

definition onGamepadDisconnect :: "gamepad option \<Rightarrow> nat \<Rightarrow> world \<Rightarrow> js_error + world" where
  "onGamepadDisconnect gamepad i w =
     (let index = (case gamepad of Some g \<Rightarrow> gp_index g | None \<Rightarrow> i)
      in case w_controllers w index of
           None \<Rightarrow> Inl TypeError
         | Some r \<Rightarrow>
             Inr ((dispatch (OnController r) [Event ''disconnected'' (Controller r)] w)
                    \<lparr>w_controllers := (w_controllers w)(index := None)\<rparr>))"

text \<open>The clock readings one call of \<open>update\<close> takes.\<close>

record ticks =
  now_renderVibes :: real
  now_applyVibes :: real
  now_armModel :: real

text \<open>
  The part of \<open>THREE.VRController.prototype.update\<close> after the test for a missing
  pose. In the branch without a position the orientation is not \<open>null\<close>; reading an
  array out of \<open>null\<close> would throw.
\<close>

definition update_pose ::
  "three_math \<Rightarrow> real \<Rightarrow> gamepad_pose \<Rightarrow> controller \<Rightarrow> js_error + controller" where
  "update_pose T now p c =
     (let c1 = (if \<not> c_hasPosed c then c\<lparr>c_hasPosed := True, c_visible := True\<rparr> else c);
          c2 = (case orientation p of
                  Some q \<Rightarrow> c1\<lparr>c_quaternion := q\<rparr>
                | None \<Rightarrow> c1);
          placed =
            (case position p of
               Some v \<Rightarrow>
                 Inr (c2\<lparr>c_position := v,
                         c_matrix := m_compose T v (c_quaternion c2) (c_scale c2)\<rparr>)
             | None \<Rightarrow>
                 (case orientation p of
                    None \<Rightarrow> Inl TypeError
                  | Some q \<Rightarrow>
                      (let m0 = (case c_armModel c2 of
                                   None \<Rightarrow> OrientationArmModel
                                 | Some m \<Rightarrow> m);
                           m1 = setHeadPosition (c_head_position c2) m0;
                           m2 = setHeadOrientation (c_head_quaternion c2) m1;
                           m3 = setControllerOrientation q m2;
                           m4 = armModel_update T now m3
                       in Inr (c2\<lparr>c_armModel := Some m4,
                                  c_matrix := m_compose T (pose_position m4)
                                                (pose_orientation m4) (c_scale c2)\<rparr>))))
      in case placed of
           Inl e \<Rightarrow> Inl e
         | Inr c3 \<Rightarrow>
             Inr (c3\<lparr>c_matrix := m_multiplyMatrices T (c_standingMatrix c3) (c_matrix c3),
                     c_matrixWorldNeedsUpdate := True\<rparr>))"

definition pose_absent :: "gamepad_pose option \<Rightarrow> bool" where
  "pose_absent pose =
     (case pose of None \<Rightarrow> True | Some p \<Rightarrow> orientation p = None \<and> position p = None)"

text \<open>
  \<open>THREE.VRController.prototype.update\<close> called on the object \<open>this\<close>, where
  \<open>gamepad\<close> is the present state of the handle the controller holds.
\<close>

definition update ::
  "three_math \<Rightarrow> ticks \<Rightarrow> gamepad \<Rightarrow> nat \<Rightarrow> world \<Rightarrow> js_error + world" where
  "update T clock gamepad this w =
     (case w_heap w this of
        None \<Rightarrow> Inl TypeError
      | Some c \<Rightarrow>
          (case pollForChanges gamepad c of
             Inl e \<Rightarrow> Inl e
           | Inr (evs, c1) \<Rightarrow>
               (let w1 = dispatch (OnController this) evs w;
                    (pulse, c2) = applyVibes (now_renderVibes clock) (now_applyVibes clock)
                                    gamepad c1;
                    w2 = (case pulse of
                            None \<Rightarrow> w1
                          | Some (i, d) \<Rightarrow> w1\<lparr>w_pulses := w_pulses w1 @ [(gp_index gamepad, i, d)]\<rparr>);
                    w3 = w2\<lparr>w_heap := (w_heap w2)(this \<mapsto> c2)\<rparr>
                in if pose_absent (gp_pose gamepad) then
                     (if c_hasPosed c2 then onGamepadDisconnect (Some gamepad) 0 w3
                      else Inr w3)
                   else
                     (case gp_pose gamepad of
                        None \<Rightarrow> Inr w3
                      | Some p \<Rightarrow>
                          (case update_pose T (now_armModel clock) p c2 of
                             Inl e \<Rightarrow> Inl e
                           | Inr c3 \<Rightarrow> Inr (w3\<lparr>w_heap := (w_heap w3)(this \<mapsto> c3)\<rparr>))))))"

text \<open>
  Successive calls of \<open>update\<close> on one controller, each with its clock readings and
  the state of the handle at that time; an exception ends the run.
\<close>

fun updates ::
  "three_math \<Rightarrow> (ticks \<times> gamepad) list \<Rightarrow> nat \<Rightarrow> world \<Rightarrow> js_error + world" where
  "updates T [] this w = Inr w"
| "updates T ((clock, gamepad) # rest) this w =
     (case update T clock gamepad this w of
        Inl e \<Rightarrow> Inl e
      | Inr w' \<Rightarrow> updates T rest this w')"

definition empty_world :: world where
  "empty_world =
     \<lparr>w_controllers = (\<lambda>i. None), w_heap = (\<lambda>r. None), w_next = 0,
      w_dispatched = [], w_pulses = []\<rparr>"

section \<open>The getters\<close>

text \<open>
  An identifier is resolved through the scopes of the enclosing functions, innermost
  first, and then among the properties of the global object; an identifier found nowhere
  throws a ReferenceError when it is read.
\<close>

fun lookup_scope ::
  "string \<Rightarrow> (string \<times> jsval) list list \<Rightarrow> (string \<Rightarrow> jsval option) \<Rightarrow> jsval option" where
  "lookup_scope x [] globals = globals x"
| "lookup_scope x (frame # frames) globals =
     (case map_of frame x of
        Some v \<Rightarrow> Some v
      | None \<Rightarrow> lookup_scope x frames globals)"

text \<open>
  The names the constructor declares (its parameter and its \<open>var\<close> and \<open>const\<close>
  declarations), which the getters close over. Only the names matter here; a value that
  is an object is \<open>Other\<close>.
\<close>

definition constructor_frame :: "controller \<Rightarrow> (string \<times> jsval) list" where
  "constructor_frame c =
    [(''gamepad'', Other), (''supported'', Other), (''hand'', Str (c_hand c)),
     (''axes'', Other), (''buttons'', Other),
     (''buttonNamePrimary'', Str (c_buttonNamePrimary c)), (''scope'', Other),
     (''vibeChannel'', Other), (''i'', Other), (''i0'', Other), (''i1'', Other),
     (''axisX'', Other), (''axisY'', Other), (''axesNames'', Other),
     (''arguments'', Other)]"

datatype axes_result = AllAxes "axis list" | OneAxis "axis option"

text \<open>
  \<open>getAxes\<close>, declared as \<open>function( index )\<close>. Its body reads \<open>nameOrIndex\<close>.
  An \<open>index\<close> that is not a number selects no element in this model.
\<close>

definition getAxes ::
  "(string \<Rightarrow> jsval option) \<Rightarrow> controller \<Rightarrow> jsval \<Rightarrow> js_error + axes_result" where
  "getAxes globals c index =
     (let frames = [[(''index'', index), (''arguments'', Other)], constructor_frame c]
      in case lookup_scope ''nameOrIndex'' frames globals of
           None \<Rightarrow> Inl ReferenceError
         | Some nameOrIndex \<Rightarrow>
             (case nameOrIndex of
                Undefined \<Rightarrow> Inr (AllAxes (c_axes c))
              | Str n \<Rightarrow>
                  Inr (OneAxis (case map_of (c_axes_byName c) n of
                                  None \<Rightarrow> None
                                | Some i \<Rightarrow> at_index (c_axes c) i))
              | Num k \<Rightarrow>
                  Inr (OneAxis (case index of
                                  Num r \<Rightarrow> (if 0 \<le> r \<and> real_of_int \<lfloor>r\<rfloor> = r
                                             then at_index (c_axes c) (nat \<lfloor>r\<rfloor>) else None)
                                | _ \<Rightarrow> None))
              | Other \<Rightarrow> Inr (OneAxis None)))"

text \<open>\<open>getButton\<close>, whose parameter is the \<open>nameOrIndex\<close> it reads.\<close>

definition getButton :: "controller \<Rightarrow> jsval \<Rightarrow> button option" where
  "getButton c nameOrIndex =
     (case nameOrIndex of
        Str n \<Rightarrow>
          (let n' = (if n = ''primary'' then c_buttonNamePrimary c else n)
           in case map_of (buttons_byName (c_buttons c)) n' of
                None \<Rightarrow> None
              | Some i \<Rightarrow> at_index (c_buttons c) i)
      | Num r \<Rightarrow> (if 0 \<le> r \<and> real_of_int \<lfloor>r\<rfloor> = r
                   then at_index (c_buttons c) (nat \<lfloor>r\<rfloor>) else None)
      | _ \<Rightarrow> None)"

section \<open>Example handles\<close>

definition idle_button :: gamepad_button where
  "idle_button = \<lparr>gb_value = 0, gb_touched = False, gb_pressed = False\<rparr>"

definition tick0 :: ticks where
  "tick0 = \<lparr>now_renderVibes = 16, now_applyVibes = 16, now_armModel = 16\<rparr>"

definition pressed_button :: gamepad_button where
  "pressed_button = \<lparr>gb_value = 1, gb_touched = True, gb_pressed = True\<rparr>"

definition unknown_handle :: gamepad where
  "unknown_handle =
     \<lparr>gp_id = ''Unknown pad'', gp_index = 0, gp_hand = [], gp_axes = [0, 0, 0],
      gp_buttons = [idle_button, idle_button], gp_pose = None, gp_hapticActuators = 0\<rparr>"

definition no_buttons_handle :: gamepad where
  "no_buttons_handle =
     \<lparr>gp_id = ''Unknown pad'', gp_index = 0, gp_hand = [], gp_axes = [0, 0],
      gp_buttons = [], gp_pose = None, gp_hapticActuators = 0\<rparr>"

definition vive_handle :: gamepad where
  "vive_handle =
     \<lparr>gp_id = ''OpenVR Gamepad'', gp_index = 0, gp_hand = ''left'', gp_axes = [0, 0],
      gp_buttons = [idle_button, idle_button, idle_button, idle_button],
      gp_pose = Some \<lparr>hasOrientation = True, hasPosition = True,
                       orientation = Some (0, 0, 0, 1), position = Some (0, 1, 0)\<rparr>,
      gp_hapticActuators = 1\<rparr>"

definition touch_right_handle :: gamepad where
  "touch_right_handle =
     \<lparr>gp_id = ''Oculus Touch (Right)'', gp_index = 1, gp_hand = ''right'', gp_axes = [0, 0],
      gp_buttons = [idle_button, idle_button, idle_button, idle_button, idle_button,
                    idle_button],
      gp_pose = Some \<lparr>hasOrientation = True, hasPosition = True,
                       orientation = Some (0, 0, 0, 1), position = Some (0, 1, 0)\<rparr>,
      gp_hapticActuators = 1\<rparr>"

definition daydream_handle :: gamepad where
  "daydream_handle =
     \<lparr>gp_id = ''Daydream Controller'', gp_index = 0, gp_hand = ''right'', gp_axes = [0, 0],
      gp_buttons = [idle_button],
      gp_pose = Some \<lparr>hasOrientation = True, hasPosition = False,
                       orientation = Some (0, 0, 0, 1), position = None\<rparr>,
      gp_hapticActuators = 0\<rparr>"

section \<open>Properties\<close>

subsection \<open>Catalog lookup (C6)\<close>

lemma startsWith_iff: "startsWith s k \<longleftrightarrow> (\<exists>ss. s = k @ ss)"
  by (induction s k rule: startsWith.induct) auto

lemma indexOf_from_nonneg: "indexOf_from s key i \<ge> 0 \<longleftrightarrow> is_substring key s"
proof (induction s arbitrary: i)
  case Nil
  show ?case by (simp add: is_substring_def)
next
  case (Cons c cs)
  have "is_substring key (c # cs) \<longleftrightarrow> startsWith (c # cs) key \<or> is_substring key cs"
  proof
    assume "is_substring key (c # cs)"
    then obtain ps ss where eq: "c # cs = ps @ key @ ss" by (auto simp: is_substring_def)
    show "startsWith (c # cs) key \<or> is_substring key cs"
    proof (cases ps)
      case Nil
      with eq show ?thesis by (auto simp: startsWith_iff)
    next
      case (Cons p ps')
      with eq have "cs = ps' @ key @ ss" by simp
      then show ?thesis by (auto simp: is_substring_def)
    qed
  next
    assume "startsWith (c # cs) key \<or> is_substring key cs"
    then show "is_substring key (c # cs)"
    proof
      assume "startsWith (c # cs) key"
      then obtain ss where "c # cs = key @ ss" by (auto simp: startsWith_iff)
      then have "c # cs = [] @ key @ ss" by simp
      then show ?thesis unfolding is_substring_def by blast
    next
      assume "is_substring key cs"
      then obtain ps ss where "cs = ps @ key @ ss" by (auto simp: is_substring_def)
      then have "c # cs = (c # ps) @ key @ ss" by simp
      then show ?thesis unfolding is_substring_def by blast
    qed
  qed
  with Cons.IH [of "Suc i"] show ?case by simp
qed

lemma getSupportedById_loop_find:
  "getSupportedById_loop cat keys ident =
     (case find (\<lambda>k. is_substring k ident) keys of None \<Rightarrow> None | Some k \<Rightarrow> map_of cat k)"
  by (induction keys) (simp_all add: indexOf_def indexOf_from_nonneg)

lemma supportedKeys_eq: "supportedKeys =
    [''Daydream Controller'', ''OpenVR Gamepad'', ''Oculus Touch (Right)'',
     ''Oculus Touch (Left)'', ''Spatial Controller (Spatial Interaction Source)'',
     ''Gear VR Controller'', ''Gear VR Touchpad'', ''Oculus Remote'', ''xbox'',
     ''Xbox 360 Controller (XInput STANDARD GAMEPAD)'',
     ''Xbox One Wired Controller (STANDARD GAMEPAD Vendor: 045e Product: 02dd)'',
     ''xinput'']"
  by (simp add: supportedKeys_def supported_def addSupportedControllers_def xids_def supported_literal_def)

lemma supported_eq: "supported =
    [(''Daydream Controller'', sup_daydream),
     (''OpenVR Gamepad'', sup_vive),
     (''Oculus Touch (Right)'', sup_oculus_right),
     (''Oculus Touch (Left)'', sup_oculus_left),
     (''Spatial Controller (Spatial Interaction Source)'', sup_microsoft),
     (''Gear VR Controller'', sup_gearvr_controller),
     (''Gear VR Touchpad'', sup_gearvr_touchpad),
     (''Oculus Remote'', sup_oculus_remote),
     (''xbox'', sup_xbox),
     (''Xbox 360 Controller (XInput STANDARD GAMEPAD)'', sup_xbox),
     (''Xbox One Wired Controller (STANDARD GAMEPAD Vendor: 045e Product: 02dd)'', sup_xbox),
     (''xinput'', sup_xbox)]"
  by (simp add: supported_def addSupportedControllers_def xids_def supported_literal_def)

lemma map_b_name_update_primary:
  "map b_name (bs[i := (bs ! i)\<lparr>b_isPrimary := True\<rparr>]) = map b_name bs"
proof (rule nth_equalityI)
  show "length (map b_name (bs[i := (bs ! i)\<lparr>b_isPrimary := True\<rparr>])) = length (map b_name bs)"
    by simp
next
  fix k
  assume "k < length (map b_name (bs[i := (bs ! i)\<lparr>b_isPrimary := True\<rparr>]))"
  then have k: "k < length bs" by simp
  show "map b_name (bs[i := (bs ! i)\<lparr>b_isPrimary := True\<rparr>]) ! k = map b_name bs ! k"
    using k by (cases "k = i") simp_all
qed

lemma map_b_name_mark_primary: "map b_name (mark_primary n bs) = map b_name bs"
  by (simp add: mark_primary_def map_b_name_update_primary split: option.splits)

lemma map_b_name_default:
  "map b_name (default_buttons bs) = map (\<lambda>i. ''button_'' @ string_of_nat i) [0 ..< length bs]"
  by (simp add: default_buttons_def default_button_def)

lemma generic_names:
  "VRController_with None gamepad = Inr c \<Longrightarrow>
     map ax_name (c_axes c) =
       map (\<lambda>i. ''axes_'' @ string_of_nat (i + 1)) [0 ..< (length (gp_axes gamepad) + 1) div 2] \<and>
     map b_name (c_buttons c) =
       map (\<lambda>i. ''button_'' @ string_of_nat i) [0 ..< length (gp_buttons gamepad)]"
  by (auto simp: VRController_with_def Let_def initial_axes_def generic_axis_def
       map_b_name_mark_primary map_b_name_default)

lemma VRController_with_None_ok: "\<exists>c. VRController_with None gamepad = Inr c"
  by (simp add: VRController_with_def Let_def)

text \<open>
  Claim C6. For every identifier, \<open>getSupportedById\<close> returns the schema stored under
  the first key of \<open>supportedKeys\<close> that occurs as a substring of the identifier, and
  nothing if no key does; the keys are those of the catalog literal in the order written,
  followed by the aliases. When nothing is returned, construction succeeds with the
  synthesized names \<open>axes_1, axes_2, \<dots>\<close> and \<open>button_0, button_1, \<dots>\<close>.
\<close>

theorem getSupportedById_first_substring_key:
  "getSupportedById ident =
     (case find (\<lambda>key. is_substring key ident) supportedKeys of
        None \<Rightarrow> None
      | Some key \<Rightarrow> map_of supported key)
   \<and> supportedKeys = map fst supported_literal @ xids
   \<and> (getSupportedById (gp_id gamepad) = None \<longrightarrow>
        (\<exists>c. VRController gamepad = Inr c
          \<and> map ax_name (c_axes c) =
              map (\<lambda>i. ''axes_'' @ string_of_nat (i + 1))
                [0 ..< (length (gp_axes gamepad) + 1) div 2]
          \<and> map b_name (c_buttons c) =
              map (\<lambda>i. ''button_'' @ string_of_nat i) [0 ..< length (gp_buttons gamepad)]))"
proof (intro conjI impI)
  show "getSupportedById ident =
     (case find (\<lambda>key. is_substring key ident) supportedKeys of
        None \<Rightarrow> None
      | Some key \<Rightarrow> map_of supported key)"
    by (simp add: getSupportedById_def getSupportedById_loop_find)
  show "supportedKeys = map fst supported_literal @ xids"
    by (simp add: supportedKeys_eq supported_literal_def xids_def)
next
  assume none: "getSupportedById (gp_id gamepad) = None"
  obtain c where c: "VRController_with None gamepad = Inr c"
    using VRController_with_None_ok by blast
  with none have "VRController gamepad = Inr c" by (simp add: VRController_def)
  with generic_names [OF c] show "\<exists>c. VRController gamepad = Inr c
          \<and> map ax_name (c_axes c) =
              map (\<lambda>i. ''axes_'' @ string_of_nat (i + 1))
                [0 ..< (length (gp_axes gamepad) + 1) div 2]
          \<and> map b_name (c_buttons c) =
              map (\<lambda>i. ''button_'' @ string_of_nat i) [0 ..< length (gp_buttons gamepad)]"
    by blast
qed

lemma vive_lookup: "getSupportedById ''OpenVR Gamepad (serial 42)'' = Some sup_vive"
  by code_simp

lemma unknown_lookup: "getSupportedById ''Unknown pad'' = None"
  by code_simp

lemma string_of_nat_small:
  "string_of_nat 0 = ''0''" "string_of_nat 1 = ''1''" "string_of_nat 2 = ''2''"
  "string_of_nat (Suc 0) = ''1''" "string_of_nat (Suc (Suc 0)) = ''2''"
  by (simp_all add: string_of_nat.simps digit_char_def)

theorem getSupportedById_first_substring_key_witness:
  "getSupportedById ''OpenVR Gamepad (serial 42)'' = Some sup_vive
   \<and> find (\<lambda>key. is_substring key ''OpenVR Gamepad (serial 42)'') supportedKeys \<noteq> None
   \<and> getSupportedById (gp_id unknown_handle) = None
   \<and> (case VRController unknown_handle of
         Inl e \<Rightarrow> False
       | Inr c \<Rightarrow> map ax_name (c_axes c) = [''axes_1'', ''axes_2'']
                  \<and> map b_name (c_buttons c) = [''button_0'', ''button_1''])"
proof -
  have u: "getSupportedById (gp_id unknown_handle) = None"
    by (simp add: unknown_handle_def unknown_lookup)
  note t = getSupportedById_first_substring_key [of "gp_id unknown_handle" unknown_handle]
  from t u obtain c where c: "VRController unknown_handle = Inr c"
    and ax: "map ax_name (c_axes c) =
              map (\<lambda>i. ''axes_'' @ string_of_nat (i + 1))
                [0 ..< (length (gp_axes unknown_handle) + 1) div 2]"
    and bn: "map b_name (c_buttons c) =
              map (\<lambda>i. ''button_'' @ string_of_nat i) [0 ..< length (gp_buttons unknown_handle)]"
    by blast
  have up2: "[0 ..< 2] = [0, Suc 0]" by (simp add: upt_rec)
  have a: "map ax_name (c_axes c) = [''axes_1'', ''axes_2'']"
    using ax by (simp add: unknown_handle_def up2 string_of_nat_small)
  have b: "map b_name (c_buttons c) = [''button_0'', ''button_1'']"
    using bn by (simp add: unknown_handle_def up2 string_of_nat_small)
  note t2 = getSupportedById_first_substring_key [of "''OpenVR Gamepad (serial 42)''" unknown_handle]
  have f: "find (\<lambda>key. is_substring key ''OpenVR Gamepad (serial 42)'') supportedKeys \<noteq> None"
    using t2 vive_lookup by (auto split: option.splits)
  show ?thesis using a b c f u vive_lookup by simp
qed

subsection \<open>Evaluating the example handles\<close>

lemma touch_right_lookup: "getSupportedById ''Oculus Touch (Right)'' = Some sup_oculus_right"
  by code_simp

lemma vive_handle_lookup: "getSupportedById ''OpenVR Gamepad'' = Some sup_vive"
  by code_simp

lemma daydream_lookup: "getSupportedById ''Daydream Controller'' = Some sup_daydream"
  by code_simp

lemma upt_small:
  "[0 ..< 1] = [0]" "[0 ..< 2] = [0, 1]" "[0 ..< 4] = [0, 1, 2, 3]"
  "[0 ..< 6] = [0, 1, 2, 3, 4, 5]"
  by (simp_all add: upt_rec)

lemmas construct_simps =
  VRController_def VRController_with_def Let_def initial_axes_def initial_axes_byName_def
  supported_axis_def generic_axis_def default_buttons_def default_button_def
  mark_primary_def buttons_byName_def new_dpad_def new_vibeChannel_def dof_of_def
  filterPair_def filterAxis_def at_index_def idle_button_def upt_small
  thumbpad01_def thumbstick01_def q_identity_def m_identity_def

lemmas poll_simps =
  pollForChanges_def poll_axis_def fresh_pair_def axesValues_def poll_button_def
  dpad_axisPressed_def truthy_def eventAction_def

subsection \<open>The events of one axis pair\<close>

lemma poll_dpad_payload':
  "poll_dpad thr name raw prev dp = (evs, dp') \<Longrightarrow> e \<in> set evs \<Longrightarrow> ev_payload e = NoPayload"
proof (induction dp arbitrary: prev evs dp')
  case Nil
  then show ?case by simp
next
  case (Cons p dp)
  obtain d entry where p: "p = (d, entry)" by (cases p)
  obtain evs0 dp0 where r: "poll_dpad thr name raw
      (dpad_axisPressed thr d (at_index raw (dp_index entry)) prev) dp = (evs0, dp0)"
    by (cases "poll_dpad thr name raw
      (dpad_axisPressed thr d (at_index raw (dp_index entry)) prev) dp")
  from Cons.prems have "e \<in> set evs0 \<or> ev_payload e = NoPayload"
    by (auto simp: p r Let_def split: if_splits)
  with Cons.IH [OF r] show ?case by blast
qed

lemma poll_axis_skipped:
  "\<not> (truthy (at_index raw (fst (ax_indexes a))) \<and> truthy (at_index raw (snd (ax_indexes a))))
     \<Longrightarrow> poll_axis style thr pthr raw a = ([], a)"
  unfolding poll_axis_def Let_def by (simp only: if_False)

text \<open>The events of the d-pad block for the axis pair \<open>a1\<close>.\<close>

lemma dpad_block_payload:
  assumes "(if ax_isThumbstick a then
              (case ax_dpad a1 of
                 None \<Rightarrow> ([], a1)
               | Some dp \<Rightarrow>
                   (let (evs, dp') = poll_dpad pthr (ax_name a) raw None dp
                    in (evs, a1\<lparr>ax_dpad := Some dp'\<rparr>)))
            else ([], a1)) = (evs2, a2)"
    and "e \<in> set evs2"
  shows "ev_payload e = NoPayload"
  using assms
  by (auto simp: Let_def split: if_splits option.splits prod.splits dest: poll_dpad_payload')

lemma poll_axis_events:
  assumes "truthy (at_index raw (fst (ax_indexes a)))"
    and "truthy (at_index raw (snd (ax_indexes a)))"
  shows "\<exists>rest. fst (poll_axis style thr pthr raw a) =
           (if ax_value a \<noteq> fresh_pair thr raw a
            then [Event (ax_name a @ '' axes changed'')
                    (axesValues style (ax_name a) (fresh_pair thr raw a))]
            else []) @ rest
         \<and> (\<forall>e \<in> set rest. ev_payload e = NoPayload)"
proof -
  let ?fresh = "fresh_pair thr raw a"
  let ?changed = "fst (ax_value a) \<noteq> fst ?fresh \<or> snd (ax_value a) \<noteq> snd ?fresh"
  let ?a1 = "if ?changed then a\<lparr>ax_value := ?fresh\<rparr> else a"
  have neq: "?changed = (ax_value a \<noteq> ?fresh)"
    by (auto simp: prod_eq_iff)
  obtain evs2 a2 where blk:
    "(if ax_isThumbstick a then
        (case ax_dpad ?a1 of
           None \<Rightarrow> ([], ?a1)
         | Some dp \<Rightarrow>
             (let (evs, dp') = poll_dpad pthr (ax_name a) raw None dp
              in (evs, ?a1\<lparr>ax_dpad := Some dp'\<rparr>)))
      else ([], ?a1)) = (evs2, a2)"
    by (meson surj_pair)
  have "fst (poll_axis style thr pthr raw a) =
          (if ?changed
           then [Event (ax_name a @ '' axes changed'') (axesValues style (ax_name a) ?fresh)]
           else []) @ evs2"
    using assms blk unfolding poll_axis_def Let_def by simp
  moreover have "\<forall>e \<in> set evs2. ev_payload e = NoPayload"
    using dpad_block_payload [OF blk] by blast
  ultimately show ?thesis unfolding neq by blast
qed

subsection \<open>The dead-zone filter (C1)\<close>

lemma filterPair_cases:
  "filterPair thr (Some x) (Some y) =
     (if \<bar>x\<bar> \<le> thr \<and> \<bar>y\<bar> \<le> thr then (Some 0, Some 0) else (Some x, Some y))"
  by (auto simp: filterPair_def filterAxis_def Let_def)


text \<open>
  Claim C1, as the code has it. The thumbstick filter acts on the pair: when both raw
  magnitudes are at most the threshold both values become zero, and otherwise both raw
  values are kept; raw \<open>(0.1, 0.5)\<close> at threshold \<open>0.2\<close> stays \<open>(0.1, 0.5)\<close>. A
  thumbstick pair read by \<open>pollForChanges\<close> is this filtered pair.
\<close>

theorem dead_zone_filter_is_paired:
  "filterPair thr (Some x) (Some y) =
     (if \<bar>x\<bar> \<le> thr \<and> \<bar>y\<bar> \<le> thr then (Some 0, Some 0) else (Some x, Some y))
   \<and> filterPair 0.2 (Some 0.1) (Some 0.5) = (Some 0.1, Some 0.5)
   \<and> fresh_pair thr raw (a\<lparr>ax_isThumbstick := True\<rparr>) =
       filterPair thr (at_index raw (fst (ax_indexes a))) (at_index raw (snd (ax_indexes a)))"
  by (auto simp: filterPair_def filterAxis_def fresh_pair_def Let_def)

theorem dead_zone_filter_is_paired_witness:
  "filterPair 0.2 (Some 0.1) (Some 0.1) = (Some 0, Some 0)
   \<and> filterPair 0.2 (Some 0.1) (Some 0.5) = (Some 0.1, Some 0.5)"
  using dead_zone_filter_is_paired [of "0.2" "0.1" "0.1"]
    dead_zone_filter_is_paired [of "0.2" "0.1" "0.5"]
  by simp

text \<open>
  The claim as stated fails: on a right Oculus Touch controller, whose axis pair is a
  thumbstick, the raw pair \<open>(0.1, 0.5)\<close> is delivered as \<open>(0.1, 0.5)\<close>, not as zeros.
\<close>

theorem dead_zone_one_axis_below_counterexample:
  "(case VRController touch_right_handle of
      Inl e \<Rightarrow> False
    | Inr c \<Rightarrow>
        (case pollForChanges (touch_right_handle\<lparr>gp_axes := [0.1, 0.5]\<rparr>) c of
           Inl e \<Rightarrow> False
         | Inr r \<Rightarrow> c_axisThreshold c = 0.2
               \<and> fst r = [Event ''thumbstick axes changed'' (Axes 0.1 0.5)]
               \<and> fst r \<noteq> [Event ''thumbstick axes changed'' (Axes 0 0)]))"
  by (simp add: touch_right_handle_def touch_right_lookup sup_oculus_right_def
       construct_simps poll_simps)

subsection \<open>The Vive thumbpad (C5)\<close>

text \<open>
  Claim C5. The values an axes-changed event carries are the fresh pair, with the Y value
  negated exactly for the style \<open>vive\<close> and the axis name \<open>thumbpad\<close>; for the style
  \<open>oculus-touch-right\<close> they are the fresh pair itself. When both raw values are truthy
  and the fresh pair differs from the stored one, that event is the first one the axis
  pair dispatches.
\<close>

theorem vive_thumbpad_inverts_y:
  "axesValues ''vive'' ''thumbpad'' (Some x, Some y) = Axes x (- y)
   \<and> axesValues ''oculus-touch-right'' name (Some x, Some y) = Axes x y
   \<and> (truthy (at_index raw (fst (ax_indexes a))) \<and> truthy (at_index raw (snd (ax_indexes a)))
        \<and> ax_value a \<noteq> fresh_pair thr raw a \<longrightarrow>
       (\<exists>rest. fst (poll_axis style thr pthr raw a) =
          Event (ax_name a @ '' axes changed'')
            (axesValues style (ax_name a) (fresh_pair thr raw a)) # rest))"
proof (intro conjI impI)
  show "axesValues ''vive'' ''thumbpad'' (Some x, Some y) = Axes x (- y)"
    by (simp add: axesValues_def)
  show "axesValues ''oculus-touch-right'' name (Some x, Some y) = Axes x y"
    by (simp add: axesValues_def)
next
  assume h: "truthy (at_index raw (fst (ax_indexes a))) \<and> truthy (at_index raw (snd (ax_indexes a)))
        \<and> ax_value a \<noteq> fresh_pair thr raw a"
  then show "\<exists>rest. fst (poll_axis style thr pthr raw a) =
          Event (ax_name a @ '' axes changed'')
            (axesValues style (ax_name a) (fresh_pair thr raw a)) # rest"
    using poll_axis_events [of raw a style thr pthr] by auto
qed

theorem vive_thumbpad_inverts_y_witness:
  "(case VRController vive_handle of
      Inl e \<Rightarrow> False
    | Inr c \<Rightarrow>
        (case pollForChanges (vive_handle\<lparr>gp_axes := [0.3, 0.7]\<rparr>) c of
           Inl e \<Rightarrow> False
         | Inr r \<Rightarrow> fst r = [Event ''thumbpad axes changed'' (Axes 0.3 (- 0.7))]))
   \<and> (case VRController touch_right_handle of
      Inl e \<Rightarrow> False
    | Inr c \<Rightarrow>
        (case pollForChanges (touch_right_handle\<lparr>gp_axes := [0.3, 0.7]\<rparr>) c of
           Inl e \<Rightarrow> False
         | Inr r \<Rightarrow> fst r = [Event ''thumbstick axes changed'' (Axes 0.3 0.7),
                              Event ''thumbstick down press began'' NoPayload]))
   \<and> axesValues ''vive'' ''thumbpad'' (Some 0.3, Some 0.7) = Axes 0.3 (- 0.7)
   \<and> axesValues ''oculus-touch-right'' ''thumbstick'' (Some 0.3, Some 0.7) = Axes 0.3 0.7"
  using vive_thumbpad_inverts_y [of "0.3" "0.7" "''thumbstick''"]
  by (simp add: vive_handle_def vive_handle_lookup sup_vive_def
       touch_right_handle_def touch_right_lookup sup_oculus_right_def
       construct_simps poll_simps)

subsection \<open>The aggregate haptic intensity (C7)\<close>

lemma fold_add_sum_list:
  "fold (\<lambda>ch acc. acc + f ch) xs (a::real) = a + sum_list (map f xs)"
  by (induction xs arbitrary: a) simp_all

lemma render_channel_number: "ch_intensity (render_channel now ch) \<noteq> None"
  by (simp add: render_channel_def split: prod.splits option.splits)

lemma render_channel_Some: "\<exists>y. ch_intensity (render_channel now ch) = Some y"
  using render_channel_number [of now ch] by auto

lemma unary_plus_rendered:
  "unary_plus (ch_intensity (render_channel now ch)) = the (ch_intensity (render_channel now ch))"
  using render_channel_number [of now ch] by (auto simp: unary_plus_def)

text \<open>
  Claim C7. On every call, \<open>renderVibes\<close> returns and stores the sum of the channels'
  intensities, as they are after the due commands were applied, clamped to the interval
  from 0 to 1; every channel then has a numeric intensity.
\<close>

theorem renderVibes_clamped_sum:
  "fst (renderVibes now c) =
     min 1 (max 0 (sum_list (map (\<lambda>ch. the (ch_intensity ch))
                               (c_vibeChannels (snd (renderVibes now c))))))
   \<and> c_vibe_intensity (snd (renderVibes now c)) = fst (renderVibes now c)
   \<and> 0 \<le> fst (renderVibes now c) \<and> fst (renderVibes now c) \<le> 1
   \<and> list_all (\<lambda>ch. ch_intensity ch \<noteq> None) (c_vibeChannels (snd (renderVibes now c)))
   \<and> c_vibeChannels (snd (renderVibes now c)) = map (render_channel now) (c_vibeChannels c)"
  by (simp add: renderVibes_def Let_def fold_add_sum_list list_all_iff
       render_channel_Some unary_plus_rendered comp_def)

theorem renderVibes_clamped_sum_witness:
  "(case VRController unknown_handle of
      Inl e \<Rightarrow> False
    | Inr c \<Rightarrow>
        map ch_intensity
          (c_vibeChannels (snd (setVibe 0 (Str ''explosion'') (Num 0.7)
             (snd (setVibe 0 (Str ''laser'') (Num 0.6) c))))) = [Some 0, Some 0.6, Some 0.7]
        \<and> fst (renderVibes 10 (snd (setVibe 0 (Str ''explosion'') (Num 0.7)
                  (snd (setVibe 0 (Str ''laser'') (Num 0.6) c))))) = 1)"
proof -
  obtain c where c: "VRController unknown_handle = Inr c"
    by (simp add: unknown_handle_def unknown_lookup construct_simps)
  let ?c2 = "snd (setVibe 0 (Str ''explosion'') (Num 0.7)
               (snd (setVibe 0 (Str ''laser'') (Num 0.6) c)))"
  have chs: "c_vibeChannels ?c2 =
      [\<lparr>ch_name = [], ch_intensity = Some 0, ch_queue = []\<rparr>,
       \<lparr>ch_name = ''laser'', ch_intensity = Some 0.6, ch_queue = []\<rparr>,
       \<lparr>ch_name = ''explosion'', ch_intensity = Some 0.7, ch_queue = []\<rparr>]"
    using c by (auto simp: unknown_handle_def unknown_lookup construct_simps setVibe_def)
  from renderVibes_clamped_sum [of 10 ?c2]
  have a: "fst (renderVibes 10 ?c2) =
      min 1 (max 0 (sum_list (map (\<lambda>ch. the (ch_intensity ch))
                                (c_vibeChannels (snd (renderVibes 10 ?c2))))))"
    and b: "c_vibeChannels (snd (renderVibes 10 ?c2)) =
      map (render_channel 10) (c_vibeChannels ?c2)"
    by blast+
  have "fst (renderVibes 10 ?c2) = 1"
    unfolding a b chs by (simp add: render_channel_def)
  then show ?thesis using c chs by simp
qed

subsection \<open>The axes getter (C10)\<close>

text \<open>
  Claim C10. Whatever the argument, \<open>getAxes\<close> throws a ReferenceError: its body reads
  \<open>nameOrIndex\<close>, which neither the getter (whose parameter is \<open>index\<close>) nor the
  constructor declares, so the read fails unless the page defines a global of that name.
\<close>

theorem getAxes_throws_ReferenceError:
  "globals ''nameOrIndex'' = None \<Longrightarrow> getAxes globals c index = Inl ReferenceError"
  by (simp add: getAxes_def constructor_frame_def)

theorem getAxes_throws_ReferenceError_witness:
  "(case VRController vive_handle of
      Inl e \<Rightarrow> False
    | Inr c \<Rightarrow> getAxes Map.empty c Undefined = Inl ReferenceError
               \<and> getAxes Map.empty c (Str ''thumbpad'') = Inl ReferenceError
               \<and> getAxes Map.empty c (Num 0) = Inl ReferenceError
               \<and> c_axes c \<noteq> [])"
proof -
  obtain c where c: "VRController vive_handle = Inr c" and ax: "c_axes c \<noteq> []"
    by (simp add: vive_handle_def vive_handle_lookup sup_vive_def construct_simps)
  have e: "Map.empty ''nameOrIndex'' = (None :: jsval option)" by simp
  show ?thesis
    using c ax getAxes_throws_ReferenceError [OF e, of c Undefined]
      getAxes_throws_ReferenceError [OF e, of c "Str ''thumbpad''"]
      getAxes_throws_ReferenceError [OF e, of c "Num 0"]
    by simp
qed

subsection \<open>Change notifications (C2)\<close>

lemma axesValues_is_Axes: "\<exists>u v. axesValues style name p = Axes u v"
  by (simp add: axesValues_def Let_def)

lemma poll_axis_axes_event_iff:
  assumes "truthy (at_index raw (fst (ax_indexes a)))"
    and "truthy (at_index raw (snd (ax_indexes a)))"
  shows "(\<exists>u v. Event (ax_name a @ '' axes changed'') (Axes u v)
                   \<in> set (fst (poll_axis style thr pthr raw a)))
         \<longleftrightarrow> ax_value a \<noteq> fresh_pair thr raw a"
proof -
  from poll_axis_events [OF assms, of style thr pthr]
  obtain rest where evs: "fst (poll_axis style thr pthr raw a) =
           (if ax_value a \<noteq> fresh_pair thr raw a
            then [Event (ax_name a @ '' axes changed'')
                    (axesValues style (ax_name a) (fresh_pair thr raw a))]
            else []) @ rest"
    and rest: "\<forall>e \<in> set rest. ev_payload e = NoPayload"
    by blast
  obtain u v where uv: "axesValues style (ax_name a) (fresh_pair thr raw a) = Axes u v"
    using axesValues_is_Axes by blast
  show ?thesis
  proof (cases "ax_value a \<noteq> fresh_pair thr raw a")
    case True
    then show ?thesis using evs uv by auto
  next
    case False
    then have "fst (poll_axis style thr pthr raw a) = rest" using evs by simp
    then show ?thesis using rest False by fastforce
  qed
qed

text \<open>Event types of one button that cannot coincide.\<close>

lemma suffix_neq: "length s = length t \<Longrightarrow> s \<noteq> t \<Longrightarrow> xs @ s \<noteq> ys @ t"
  by (simp add: append_eq_append_conv)

lemma touch_neq_primary_press:
  "n @ '' touch '' @ eventAction p \<noteq> ''primary press '' @ eventAction q"
proof -
  have "n @ ('' touch '' @ eventAction p) \<noteq> ''primary'' @ ('' press '' @ eventAction q)"
    by (rule suffix_neq) (simp_all add: eventAction_def)
  then show ?thesis by simp
qed

lemma press_neq_primary_touch:
  "n @ '' press '' @ eventAction p \<noteq> ''primary touch '' @ eventAction q"
proof -
  have "n @ ('' press '' @ eventAction p) \<noteq> ''primary'' @ ('' touch '' @ eventAction q)"
    by (rule suffix_neq) (simp_all add: eventAction_def)
  then show ?thesis by simp
qed

lemma poll_button_value_iff:
  "Event (b_name b @ '' value changed'') (Value (gb_value r)) \<in> set (fst (poll_button r b))
     \<longleftrightarrow> b_value b \<noteq> gb_value r"
  by (auto simp: poll_button_def Let_def)

lemma poll_button_touch_iff:
  "Event (b_name b @ '' touch '' @ eventAction (gb_touched r)) NoPayload
       \<in> set (fst (poll_button r b))
     \<longleftrightarrow> b_isTouched b \<noteq> gb_touched r"
  using touch_neq_primary_press [of "b_name b" "gb_touched r" "gb_pressed r"]
  by (auto simp: poll_button_def Let_def)

lemma poll_button_press_iff:
  "Event (b_name b @ '' press '' @ eventAction (gb_pressed r)) NoPayload
       \<in> set (fst (poll_button r b))
     \<longleftrightarrow> b_isPressed b \<noteq> gb_pressed r"
  using press_neq_primary_touch [of "b_name b" "gb_pressed r" "gb_touched r"]
  by (auto simp: poll_button_def Let_def)

text \<open>A second poll with the same raw input finds nothing changed.\<close>

lemma poll_dpad_again:
  "poll_dpad thr name raw prev dp = (evs, dp') \<Longrightarrow> poll_dpad thr name raw prev dp' = ([], dp')"
proof (induction dp arbitrary: prev evs dp')
  case Nil
  then show ?case by simp
next
  case (Cons p dp)
  obtain d entry where p: "p = (d, entry)" by (cases p)
  obtain evs0 dp0 where r: "poll_dpad thr name raw
      (dpad_axisPressed thr d (at_index raw (dp_index entry)) prev) dp = (evs0, dp0)"
    by (cases "poll_dpad thr name raw
      (dpad_axisPressed thr d (at_index raw (dp_index entry)) prev) dp")
  from Cons.IH [OF r] Cons.prems show ?case
    by (auto simp: p r Let_def split: if_splits)
qed

lemma fresh_pair_cong:
  "ax_indexes a' = ax_indexes a \<Longrightarrow> ax_isThumbstick a' = ax_isThumbstick a
     \<Longrightarrow> fresh_pair thr raw a' = fresh_pair thr raw a"
  by (simp add: fresh_pair_def)

lemma poll_axis_again:
  assumes "poll_axis style thr pthr raw a = (evs, a')"
  shows "poll_axis style thr pthr raw a' = ([], a')"
proof (cases "truthy (at_index raw (fst (ax_indexes a))) \<and> truthy (at_index raw (snd (ax_indexes a)))")
  case False
  then have "a' = a" using assms poll_axis_skipped [of raw a style thr pthr] by simp
  then show ?thesis using False poll_axis_skipped [of raw a style thr pthr] by simp
next
  case True
  let ?fresh = "fresh_pair thr raw a"
  let ?changed = "fst (ax_value a) \<noteq> fst ?fresh \<or> snd (ax_value a) \<noteq> snd ?fresh"
  let ?a1 = "if ?changed then a\<lparr>ax_value := ?fresh\<rparr> else a"
  have v1: "ax_value ?a1 = ?fresh" by (auto simp: prod_eq_iff)
  have same1: "ax_indexes ?a1 = ax_indexes a" "ax_isThumbstick ?a1 = ax_isThumbstick a"
    "ax_name ?a1 = ax_name a"
    by auto
  show ?thesis
  proof (cases "ax_isThumbstick a \<and> ax_dpad ?a1 \<noteq> None")
    case False
    then have a': "a' = ?a1"
      using assms True unfolding poll_axis_def Let_def by (auto split: option.splits)
    have "fresh_pair thr raw a' = ?fresh"
      unfolding a' by (rule fresh_pair_cong) auto
    moreover have "ax_value a' = ?fresh" unfolding a' by (rule v1)
    moreover have "ax_indexes a' = ax_indexes a" "ax_isThumbstick a' = ax_isThumbstick a"
      "ax_dpad a' = ax_dpad ?a1"
      unfolding a' by auto
    ultimately show ?thesis
      using True False unfolding poll_axis_def Let_def by (auto split: option.splits)
  next
    case thumb: True
    then obtain dp where dp: "ax_dpad ?a1 = Some dp" by auto
    obtain evs2 dp' where pd: "poll_dpad pthr (ax_name a) raw None dp = (evs2, dp')"
      by (meson surj_pair)
    have a': "a' = ?a1\<lparr>ax_dpad := Some dp'\<rparr>"
      using assms True thumb dp pd unfolding poll_axis_def Let_def by auto
    have f: "fresh_pair thr raw a' = ?fresh"
      unfolding a' by (rule fresh_pair_cong) auto
    have v: "ax_value a' = ?fresh" unfolding a' using v1 by simp
    have s: "ax_indexes a' = ax_indexes a" "ax_isThumbstick a'" "ax_name a' = ax_name a"
      "ax_dpad a' = Some dp'"
      unfolding a' using thumb by auto
    from poll_dpad_again [OF pd]
    have again: "poll_dpad pthr (ax_name a) raw None dp' = ([], dp')" .
    have upd: "a'\<lparr>ax_dpad := Some dp'\<rparr> = a'" unfolding a' by simp
    show ?thesis
      using True unfolding poll_axis_def Let_def
      by (simp add: f v s again upd)
  qed
qed

lemma poll_axes_again:
  "poll_axes style thr pthr raw as = (evs, as') \<Longrightarrow> poll_axes style thr pthr raw as' = ([], as')"
proof (induction as arbitrary: evs as')
  case Nil
  then show ?case by simp
next
  case (Cons a as)
  obtain e1 a1 where a: "poll_axis style thr pthr raw a = (e1, a1)" by (meson surj_pair)
  obtain e2 as2 where r: "poll_axes style thr pthr raw as = (e2, as2)" by (meson surj_pair)
  from Cons.prems have "as' = a1 # as2" by (simp add: a r)
  then show ?case using poll_axis_again [OF a] Cons.IH [OF r] by simp
qed

lemma poll_button_again:
  "poll_button r b = (evs, b') \<Longrightarrow> poll_button r b' = ([], b')"
  by (auto simp: poll_button_def Let_def split: if_splits)

lemma poll_buttons_again:
  "poll_buttons raw i bs = Inr (evs, bs') \<Longrightarrow> poll_buttons raw i bs' = Inr ([], bs')"
proof (induction bs arbitrary: i evs bs')
  case Nil
  then show ?case by simp
next
  case (Cons b bs)
  from Cons.prems obtain r where r: "at_index raw i = Some r"
    by (auto split: option.splits)
  obtain e1 b1 where b: "poll_button r b = (e1, b1)" by (meson surj_pair)
  from Cons.prems r b obtain e2 bs2 where rest: "poll_buttons raw (Suc i) bs = Inr (e2, bs2)"
    and bs': "bs' = b1 # bs2"
    by (auto split: sum.splits)
  show ?case
    using poll_button_again [OF b] Cons.IH [OF rest] by (simp add: bs' r)
qed

lemma pollForChanges_again:
  assumes "pollForChanges gamepad c = Inr (evs, c')"
  shows "pollForChanges gamepad c' = Inr ([], c')"
proof -
  let ?c1 = "if c_hand c \<noteq> gp_hand gamepad then c\<lparr>c_hand := gp_hand gamepad\<rparr> else c"
  have c1: "c_hand ?c1 = gp_hand gamepad" "c_style ?c1 = c_style c"
    "c_axisThreshold ?c1 = c_axisThreshold c" "c_axisPressThreshold ?c1 = c_axisPressThreshold c"
    "c_axes ?c1 = c_axes c" "c_buttons ?c1 = c_buttons c"
    by auto
  obtain e1 axes' where ax: "poll_axes (c_style c) (c_axisThreshold c) (c_axisPressThreshold c)
      (gp_axes gamepad) (c_axes c) = (e1, axes')"
    by (meson surj_pair)
  from assms obtain e2 buttons' where
    bt: "poll_buttons (gp_buttons gamepad) 0 (c_buttons c) = Inr (e2, buttons')"
    and c': "c' = ?c1\<lparr>c_axes := axes', c_buttons := buttons'\<rparr>"
    unfolding pollForChanges_def Let_def c1 ax
    by (auto split: sum.splits)
  have f: "c_hand c' = gp_hand gamepad" "c_style c' = c_style c"
    "c_axisThreshold c' = c_axisThreshold c" "c_axisPressThreshold c' = c_axisPressThreshold c"
    "c_axes c' = axes'" "c_buttons c' = buttons'"
    unfolding c' by auto
  have id: "c'\<lparr>c_axes := axes', c_buttons := buttons'\<rparr> = c'" unfolding c' by simp
  show ?thesis
    unfolding pollForChanges_def Let_def
    by (simp add: f poll_axes_again [OF ax] poll_buttons_again [OF bt] id)
qed

text \<open>
  Claim C2. The code does not do what the claim says when a raw axis value is exactly
  zero: the loop over the axes tests \<open>gamepad.axes[i0] && gamepad.axes[i1]\<close>, which
  is false for the number 0, and then skips the pair. A Vive controller whose stored
  thumbpad pair is \<open>(0.3, 0.7)\<close> and whose raw pair is now \<open>(0, 0.7)\<close> dispatches
  nothing and keeps the stored pair, although the fresh pair differs from it. A right
  Oculus Touch controller polled with the raw pair \<open>(-0.9, 0.9)\<close> reports the change
  and the two d-pad presses; polled next with \<open>(0, 0)\<close> it dispatches nothing, keeps
  the stored pair and leaves both d-pad directions pressed. The button loop has no such
  test: a trigger that goes back to the value 0 is reported.
\<close>

theorem zero_axis_skipped_by_truthiness_guard:
  "(case VRController (vive_handle\<lparr>gp_axes := [0.3, 0.7]\<rparr>) of
      Inl e \<Rightarrow> False
    | Inr c \<Rightarrow>
        map ax_value (c_axes c) = [(Some 0.3, Some 0.7)]
        \<and> map (fresh_pair (c_axisThreshold c) [0, 0.7]) (c_axes c) = [(Some 0, Some 0.7)]
        \<and> (case pollForChanges (vive_handle\<lparr>gp_axes := [0, 0.7]\<rparr>) c of
             Inl e \<Rightarrow> False
           | Inr r \<Rightarrow> fst r = [] \<and> map ax_value (c_axes (snd r)) = [(Some 0.3, Some 0.7)]))
   \<and> (case VRController touch_right_handle of
      Inl e \<Rightarrow> False
    | Inr c \<Rightarrow>
        (case pollForChanges (touch_right_handle\<lparr>gp_axes := [- 0.9, 0.9]\<rparr>) c of
           Inl e \<Rightarrow> False
         | Inr r \<Rightarrow>
             fst r = [Event ''thumbstick axes changed'' (Axes (- 0.9) 0.9),
                      Event ''thumbstick down press began'' NoPayload,
                      Event ''thumbstick left press began'' NoPayload]
             \<and> map (fresh_pair (c_axisThreshold c) [0, 0]) (c_axes (snd r)) = [(Some 0, Some 0)]
             \<and> (case pollForChanges (touch_right_handle\<lparr>gp_axes := [0, 0]\<rparr>) (snd r) of
                  Inl e \<Rightarrow> False
                | Inr r' \<Rightarrow>
                    fst r' = []
                    \<and> map ax_value (c_axes (snd r')) = [(Some (- 0.9), Some 0.9)]
                    \<and> map (\<lambda>a. map (\<lambda>d. (fst d, dp_isPressed (snd d))) (the (ax_dpad a)))
                          (c_axes (snd r'))
                       = [[(''up'', False), (''down'', True), (''left'', True),
                           (''right'', False)]])))
   \<and> (case VRController vive_handle of
      Inl e \<Rightarrow> False
    | Inr c \<Rightarrow>
        (case pollForChanges
                (vive_handle\<lparr>gp_buttons :=
                   [idle_button, pressed_button, idle_button, idle_button]\<rparr>) c of
           Inl e \<Rightarrow> False
         | Inr r \<Rightarrow>
             (case pollForChanges vive_handle (snd r) of
                Inl e \<Rightarrow> False
              | Inr r' \<Rightarrow>
                  fst r' = [Event ''trigger value changed'' (Value 0),
                            Event ''primary value changed'' (Value 0),
                            Event ''trigger touch ended'' NoPayload,
                            Event ''primary touch ended'' NoPayload,
                            Event ''trigger press ended'' NoPayload,
                            Event ''primary press ended'' NoPayload])))"
proof (intro conjI)
  show "(case VRController (vive_handle\<lparr>gp_axes := [0.3, 0.7]\<rparr>) of
      Inl e \<Rightarrow> False
    | Inr c \<Rightarrow>
        map ax_value (c_axes c) = [(Some 0.3, Some 0.7)]
        \<and> map (fresh_pair (c_axisThreshold c) [0, 0.7]) (c_axes c) = [(Some 0, Some 0.7)]
        \<and> (case pollForChanges (vive_handle\<lparr>gp_axes := [0, 0.7]\<rparr>) c of
             Inl e \<Rightarrow> False
           | Inr r \<Rightarrow> fst r = [] \<and> map ax_value (c_axes (snd r)) = [(Some 0.3, Some 0.7)]))"
    by (simp add: vive_handle_def vive_handle_lookup sup_vive_def construct_simps poll_simps)
  show "(case VRController touch_right_handle of
      Inl e \<Rightarrow> False
    | Inr c \<Rightarrow>
        (case pollForChanges (touch_right_handle\<lparr>gp_axes := [- 0.9, 0.9]\<rparr>) c of
           Inl e \<Rightarrow> False
         | Inr r \<Rightarrow>
             fst r = [Event ''thumbstick axes changed'' (Axes (- 0.9) 0.9),
                      Event ''thumbstick down press began'' NoPayload,
                      Event ''thumbstick left press began'' NoPayload]
             \<and> map (fresh_pair (c_axisThreshold c) [0, 0]) (c_axes (snd r)) = [(Some 0, Some 0)]
             \<and> (case pollForChanges (touch_right_handle\<lparr>gp_axes := [0, 0]\<rparr>) (snd r) of
                  Inl e \<Rightarrow> False
                | Inr r' \<Rightarrow>
                    fst r' = []
                    \<and> map ax_value (c_axes (snd r')) = [(Some (- 0.9), Some 0.9)]
                    \<and> map (\<lambda>a. map (\<lambda>d. (fst d, dp_isPressed (snd d))) (the (ax_dpad a)))
                          (c_axes (snd r'))
                       = [[(''up'', False), (''down'', True), (''left'', True),
                           (''right'', False)]])))"
    by (simp add: touch_right_handle_def touch_right_lookup sup_oculus_right_def
          construct_simps poll_simps)
  show "(case VRController vive_handle of
      Inl e \<Rightarrow> False
    | Inr c \<Rightarrow>
        (case pollForChanges
                (vive_handle\<lparr>gp_buttons :=
                   [idle_button, pressed_button, idle_button, idle_button]\<rparr>) c of
           Inl e \<Rightarrow> False
         | Inr r \<Rightarrow>
             (case pollForChanges vive_handle (snd r) of
                Inl e \<Rightarrow> False
              | Inr r' \<Rightarrow>
                  fst r' = [Event ''trigger value changed'' (Value 0),
                            Event ''primary value changed'' (Value 0),
                            Event ''trigger touch ended'' NoPayload,
                            Event ''primary touch ended'' NoPayload,
                            Event ''trigger press ended'' NoPayload,
                            Event ''primary press ended'' NoPayload])))"
    by (simp add: vive_handle_def vive_handle_lookup sup_vive_def construct_simps poll_simps
          pressed_button_def)
qed

subsection \<open>The primary button (C4)\<close>

lemma map_of_obj_set: "map_of (obj_set k v m) = (map_of m)(k \<mapsto> v)"
  by (induction m) (auto simp: fun_upd_twist)

lemma byName_fold_Some:
  "map_of (fold (\<lambda>i m. obj_set (f i) i m) js m0) n = Some i
     \<Longrightarrow> (i \<in> set js \<and> f i = n) \<or> map_of m0 n = Some i"
proof (induction js arbitrary: m0)
  case Nil
  then show ?case by simp
next
  case (Cons j js)
  from Cons.IH [of "obj_set (f j) j m0"] Cons.prems
  have "(i \<in> set js \<and> f i = n) \<or> map_of (obj_set (f j) j m0) n = Some i"
    by simp
  then show ?case by (auto simp: map_of_obj_set split: if_splits)
qed

lemma byName_fold_defined:
  "n \<in> f ` set js \<or> map_of m0 n \<noteq> None
     \<Longrightarrow> map_of (fold (\<lambda>i m. obj_set (f i) i m) js m0) n \<noteq> None"
proof (induction js arbitrary: m0)
  case Nil
  then show ?case by simp
next
  case (Cons j js)
  have "n \<in> f ` set js \<or> map_of (obj_set (f j) j m0) n \<noteq> None"
    using Cons.prems by (auto simp: map_of_obj_set)
  from Cons.IH [OF this] show ?case by simp
qed

lemma buttons_byName_Some:
  "map_of (buttons_byName bs) n = Some i \<Longrightarrow> i < length bs \<and> b_name (bs ! i) = n"
  using byName_fold_Some [of "\<lambda>i. b_name (bs ! i)" "[0 ..< length bs]" "[]" n i]
  by (auto simp: buttons_byName_def)

lemma buttons_byName_defined:
  assumes "n \<in> set (map b_name bs)"
  shows "\<exists>i. map_of (buttons_byName bs) n = Some i"
proof -
  from assms obtain k where "k < length bs" "b_name (bs ! k) = n"
    by (auto simp: in_set_conv_nth)
  then have "n \<in> (\<lambda>i. b_name (bs ! i)) ` set [0 ..< length bs]" by auto
  then have "map_of (buttons_byName bs) n \<noteq> None"
    unfolding buttons_byName_def by (intro byName_fold_defined) simp
  then show ?thesis by auto
qed

lemma mark_primary_exactly_one:
  assumes none: "\<forall>b \<in> set bs. \<not> b_isPrimary b"
    and named: "n \<in> set (map b_name bs)"
  shows "\<exists>i < length bs. b_name (bs ! i) = n
           \<and> map_of (buttons_byName bs) n = Some i
           \<and> (\<forall>j < length bs. b_isPrimary (mark_primary n bs ! j) \<longleftrightarrow> j = i)"
proof -
  from buttons_byName_defined [OF named] obtain i
    where i: "map_of (buttons_byName bs) n = Some i" by blast
  from buttons_byName_Some [OF i] have il: "i < length bs" and nm: "b_name (bs ! i) = n"
    by auto
  have mp: "mark_primary n bs = bs[i := (bs ! i)\<lparr>b_isPrimary := True\<rparr>]"
    by (simp add: mark_primary_def i)
  have "\<forall>j < length bs. b_isPrimary (mark_primary n bs ! j) \<longleftrightarrow> j = i"
  proof (intro allI impI)
    fix j assume j: "j < length bs"
    show "b_isPrimary (mark_primary n bs ! j) \<longleftrightarrow> j = i"
    proof (cases "j = i")
      case True
      then show ?thesis using il by (simp add: mp)
    next
      case False
      then have "mark_primary n bs ! j = bs ! j" by (simp add: mp)
      moreover have "\<not> b_isPrimary (bs ! j)" using none j by simp
      ultimately show ?thesis using False by simp
    qed
  qed
  with il nm i show ?thesis by blast
qed

lemma mark_primary_length: "length (mark_primary n bs) = length bs"
  by (simp add: mark_primary_def split: option.splits)

lemma mark_primary_none:
  "\<forall>b \<in> set bs. \<not> b_isPrimary b \<Longrightarrow> n \<notin> set (map b_name bs)
     \<Longrightarrow> mark_primary n bs = bs"
proof -
  assume "n \<notin> set (map b_name bs)"
  then have "map_of (buttons_byName bs) n = None"
    using buttons_byName_Some [of bs n] by (cases "map_of (buttons_byName bs) n") auto
  then show ?thesis by (simp add: mark_primary_def)
qed

lemma rename_buttons_Inr:
  "rename_buttons names bs = Inr bs' \<Longrightarrow>
     length names \<le> length bs \<and> length bs' = length bs
     \<and> map b_name bs' = names @ drop (length names) (map b_name bs)
     \<and> map b_isPrimary bs' = map b_isPrimary bs"
proof (induction names bs arbitrary: bs' rule: rename_buttons.induct)
  case (1 bs)
  then show ?case by simp
next
  case (2 n ns)
  then show ?case by simp
next
  case (3 n ns b bs)
  from "3.prems" obtain bs0 where r: "rename_buttons ns bs = Inr bs0"
    and bs': "bs' = b\<lparr>b_name := n\<rparr> # bs0"
    by (auto split: sum.splits)
  from "3.IH" [OF r] show ?case by (simp add: bs')
qed

lemma default_buttons_not_primary: "\<forall>b \<in> set (default_buttons bs). \<not> b_isPrimary b"
  by (auto simp: default_buttons_def default_button_def)

lemma default_buttons_length: "length (default_buttons bs) = length bs"
  by (simp add: default_buttons_def)

text \<open>The schemas \<open>getSupportedById\<close> can return.\<close>

lemma getSupportedById_loop_in_catalog:
  "getSupportedById_loop cat keys ident = Some s \<Longrightarrow> s \<in> snd ` set cat"
  by (induction keys) (auto split: if_splits dest: map_of_SomeD intro: rev_image_eqI)

lemma supported_schema_primary:
  assumes "getSupportedById ident = Some s"
  shows "\<exists>p names. sup_primary s = Some p \<and> sup_buttons s = Some names \<and> p \<in> set names"
proof -
  from assms have "s \<in> snd ` set supported"
    unfolding getSupportedById_def by (rule getSupportedById_loop_in_catalog)
  then have "s \<in> {sup_daydream, sup_vive, sup_oculus_right, sup_oculus_left, sup_microsoft,
      sup_gearvr_controller, sup_gearvr_touchpad, sup_oculus_remote, sup_xbox}"
    by (auto simp: supported_eq)
  then show ?thesis
    by (auto simp: sup_daydream_def sup_vive_def sup_oculus_right_def sup_oculus_left_def
          sup_microsoft_def sup_gearvr_controller_def sup_gearvr_touchpad_def
          sup_oculus_remote_def sup_xbox_def)
qed

text \<open>Digits of the synthesized names.\<close>

lemma string_of_nat_nonempty: "string_of_nat n \<noteq> []"
  by (subst string_of_nat.simps) simp

lemma string_of_nat_single:
  assumes "string_of_nat n = [d]"
  shows "n < 10 \<and> d = digit_char n"
proof (cases "n < 10")
  case True
  then show ?thesis using assms by (subst (asm) string_of_nat.simps) simp
next
  case False
  then have "string_of_nat n = string_of_nat (n div 10) @ [digit_char (n mod 10)]"
    by (subst string_of_nat.simps) simp
  with assms have "string_of_nat (n div 10) = []" by simp
  then show ?thesis using string_of_nat_nonempty by blast
qed

lemma below_ten: "(n::nat) < 10 \<Longrightarrow> n \<in> {0, 1, 2, 3, 4, 5, 6, 7, 8, 9}"
  by auto

lemma digit_char_zero: "n < 10 \<Longrightarrow> digit_char n = CHR ''0'' \<Longrightarrow> n = 0"
  by (drule below_ten) (auto simp: digit_char_def)

lemma digit_char_one: "n < 10 \<Longrightarrow> digit_char n = CHR ''1'' \<Longrightarrow> n = 1"
  by (drule below_ten) (auto simp: digit_char_def)

lemma string_of_nat_is_0: "string_of_nat n = ''0'' \<Longrightarrow> n = 0"
  using string_of_nat_single [of n "CHR ''0''"] digit_char_zero [of n] by auto

lemma string_of_nat_is_1: "string_of_nat n = ''1'' \<Longrightarrow> n = 1"
  using string_of_nat_single [of n "CHR ''1''"] digit_char_one [of n] by auto

lemma default_name_nth:
  "i < length bs \<Longrightarrow> b_name (default_buttons bs ! i) = ''button_'' @ string_of_nat i"
  by (simp add: default_buttons_def default_button_def)

subsection \<open>What one update changes\<close>

lemma poll_button_frame:
  "b_isPrimary (snd (poll_button r b)) = b_isPrimary b \<and> b_name (snd (poll_button r b)) = b_name b"
  by (simp add: poll_button_def Let_def)

lemma poll_buttons_frame:
  "poll_buttons raw i bs = Inr (evs, bs') \<Longrightarrow>
     map b_isPrimary bs' = map b_isPrimary bs \<and> map b_name bs' = map b_name bs"
proof (induction bs arbitrary: i evs bs')
  case Nil
  then show ?case by simp
next
  case (Cons b bs)
  from Cons.prems obtain r where r: "at_index raw i = Some r"
    by (auto split: option.splits)
  obtain e1 b1 where b: "poll_button r b = (e1, b1)" by (meson surj_pair)
  from Cons.prems r b obtain e2 bs2 where rest: "poll_buttons raw (Suc i) bs = Inr (e2, bs2)"
    and bs': "bs' = b1 # bs2"
    by (auto split: sum.splits)
  from poll_button_frame [of r b] b have "b_isPrimary b1 = b_isPrimary b" "b_name b1 = b_name b"
    by simp_all
  with Cons.IH [OF rest] show ?case by (simp add: bs')
qed

lemma pollForChanges_frame:
  assumes "pollForChanges gamepad c = Inr (evs, c')"
  shows "map b_isPrimary (c_buttons c') = map b_isPrimary (c_buttons c)
         \<and> map b_name (c_buttons c') = map b_name (c_buttons c)
         \<and> c_dof c' = c_dof c \<and> c_hasPosed c' = c_hasPosed c \<and> c_visible c' = c_visible c
         \<and> c_quaternion c' = c_quaternion c \<and> c_position c' = c_position c
         \<and> c_matrix c' = c_matrix c \<and> c_armModel c' = c_armModel c
         \<and> c_matrixWorldNeedsUpdate c' = c_matrixWorldNeedsUpdate c
         \<and> c_style c' = c_style c \<and> c_buttonNamePrimary c' = c_buttonNamePrimary c"
proof -
  let ?c1 = "if c_hand c \<noteq> gp_hand gamepad then c\<lparr>c_hand := gp_hand gamepad\<rparr> else c"
  obtain e1 axes' where ax: "poll_axes (c_style ?c1) (c_axisThreshold ?c1)
      (c_axisPressThreshold ?c1) (gp_axes gamepad) (c_axes ?c1) = (e1, axes')"
    by (meson surj_pair)
  from assms obtain e2 buttons' where
    bt: "poll_buttons (gp_buttons gamepad) 0 (c_buttons ?c1) = Inr (e2, buttons')"
    and c': "c' = ?c1\<lparr>c_axes := axes', c_buttons := buttons'\<rparr>"
    unfolding pollForChanges_def Let_def ax
    by (auto split: sum.splits)
  have "c_buttons ?c1 = c_buttons c" by simp
  with poll_buttons_frame [OF bt]
  have "map b_isPrimary buttons' = map b_isPrimary (c_buttons c)"
    "map b_name buttons' = map b_name (c_buttons c)"
    by simp_all
  then show ?thesis unfolding c' by simp
qed

lemma applyVibes_frame:
  assumes "applyVibes t1 t2 gamepad c = (pulse, c')"
  shows "c_buttons c' = c_buttons c
         \<and> c_dof c' = c_dof c \<and> c_hasPosed c' = c_hasPosed c \<and> c_visible c' = c_visible c
         \<and> c_quaternion c' = c_quaternion c \<and> c_position c' = c_position c
         \<and> c_matrix c' = c_matrix c \<and> c_armModel c' = c_armModel c
         \<and> c_matrixWorldNeedsUpdate c' = c_matrixWorldNeedsUpdate c
         \<and> c_style c' = c_style c \<and> c_buttonNamePrimary c' = c_buttonNamePrimary c"
  using assms
  by (auto simp: applyVibes_def renderVibes_def Let_def split: if_splits)

lemma update_pose_frame:
  assumes "update_pose T now p c = Inr c'"
  shows "c_buttons c' = c_buttons c \<and> c_dof c' = c_dof c
         \<and> c_style c' = c_style c \<and> c_buttonNamePrimary c' = c_buttonNamePrimary c"
  using assms
  by (auto simp: update_pose_def Let_def split: option.splits sum.splits if_splits)

lemma update_heap:
  assumes heap: "w_heap w this = Some c"
    and up: "update T clk g this w = Inr w'"
  shows "\<exists>evs c1 pulse c2.
           pollForChanges g c = Inr (evs, c1)
           \<and> applyVibes (now_renderVibes clk) (now_applyVibes clk) g c1 = (pulse, c2)
           \<and> (w_heap w' this = Some c2
               \<or> (\<exists>p c3. gp_pose g = Some p \<and> update_pose T (now_armModel clk) p c2 = Inr c3
                      \<and> w_heap w' this = Some c3))"
proof -
  from up heap obtain evs c1 where poll: "pollForChanges g c = Inr (evs, c1)"
    by (auto simp: update_def split: sum.splits)
  obtain pulse c2 where vib:
    "applyVibes (now_renderVibes clk) (now_applyVibes clk) g c1 = (pulse, c2)"
    by (meson surj_pair)
  have "w_heap w' this = Some c2
        \<or> (\<exists>p c3. gp_pose g = Some p \<and> update_pose T (now_armModel clk) p c2 = Inr c3
              \<and> w_heap w' this = Some c3)"
    using up heap poll vib
    by (auto simp: update_def Let_def dispatch_def onGamepadDisconnect_def
          split: sum.splits option.splits if_splits prod.splits)
  with poll vib show ?thesis by blast
qed

lemma update_keeps:
  assumes heap: "w_heap w this = Some c"
    and up: "update T clk g this w = Inr w'"
  shows "\<exists>c'. w_heap w' this = Some c'
           \<and> map b_isPrimary (c_buttons c') = map b_isPrimary (c_buttons c)
           \<and> map b_name (c_buttons c') = map b_name (c_buttons c)
           \<and> c_dof c' = c_dof c"
proof -
  from update_heap [OF heap up] obtain evs c1 pulse c2 where
    poll: "pollForChanges g c = Inr (evs, c1)"
    and vib: "applyVibes (now_renderVibes clk) (now_applyVibes clk) g c1 = (pulse, c2)"
    and h: "w_heap w' this = Some c2
               \<or> (\<exists>p c3. gp_pose g = Some p \<and> update_pose T (now_armModel clk) p c2 = Inr c3
                      \<and> w_heap w' this = Some c3)"
    by blast
  note f1 = pollForChanges_frame [OF poll]
  note f2 = applyVibes_frame [OF vib]
  from h show ?thesis
  proof
    assume "w_heap w' this = Some c2"
    then show ?thesis using f1 f2 by simp
  next
    assume "\<exists>p c3. gp_pose g = Some p \<and> update_pose T (now_armModel clk) p c2 = Inr c3
                      \<and> w_heap w' this = Some c3"
    then obtain p c3 where p: "update_pose T (now_armModel clk) p c2 = Inr c3"
      and h3: "w_heap w' this = Some c3" by blast
    from update_pose_frame [OF p] h3 show ?thesis using f1 f2 by simp
  qed
qed

lemma updates_keeps:
  "w_heap w this = Some c \<Longrightarrow> updates T run this w = Inr w' \<Longrightarrow>
     \<exists>c'. w_heap w' this = Some c'
        \<and> map b_isPrimary (c_buttons c') = map b_isPrimary (c_buttons c)
        \<and> map b_name (c_buttons c') = map b_name (c_buttons c)
        \<and> c_dof c' = c_dof c"
proof (induction run arbitrary: w c)
  case Nil
  then show ?case by simp
next
  case (Cons step run)
  obtain clk g where step: "step = (clk, g)" by (cases step)
  from Cons.prems obtain w1 where u: "update T clk g this w = Inr w1"
    and rest: "updates T run this w1 = Inr w'"
    by (auto simp: step split: sum.splits)
  from update_keeps [OF Cons.prems(1) u] obtain c1 where
    h1: "w_heap w1 this = Some c1"
    and k1: "map b_isPrimary (c_buttons c1) = map b_isPrimary (c_buttons c)"
      "map b_name (c_buttons c1) = map b_name (c_buttons c)" "c_dof c1 = c_dof c"
    by blast
  from Cons.IH [OF h1 rest] k1 show ?case by auto
qed

lemma VRController_with_shape:
  assumes "VRController_with schm gamepad = Inr c"
  shows "\<exists>bs1.
      (case (case schm of None \<Rightarrow> None | Some s \<Rightarrow> sup_buttons s) of
         None \<Rightarrow> Inr (default_buttons (gp_buttons gamepad))
       | Some names \<Rightarrow> rename_buttons names (default_buttons (gp_buttons gamepad))) = Inr bs1
      \<and> c_buttons c = mark_primary (c_buttonNamePrimary c) bs1
      \<and> c_buttonNamePrimary c =
          (case (case schm of None \<Rightarrow> None | Some s \<Rightarrow> sup_primary s) of
             Some n \<Rightarrow> n
           | None \<Rightarrow> if length (gp_buttons gamepad) > 1 then ''button_1'' else ''button_0'')
      \<and> c_dof c = dof_of (gp_pose gamepad)"
  using assms by (auto simp: VRController_with_def Let_def split: sum.splits)

lemma nth_b_name_mark_primary:
  "i < length bs \<Longrightarrow> b_name (mark_primary n bs ! i) = b_name (bs ! i)"
  using map_b_name_mark_primary [of n bs]
  by (metis length_map mark_primary_length nth_map)

lemma constructed_primary_generic:
  assumes c: "VRController_with None gamepad = Inr c"
    and ne: "gp_buttons gamepad \<noteq> []"
  shows "\<exists>i < length (c_buttons c).
            (\<forall>j < length (c_buttons c). b_isPrimary (c_buttons c ! j) \<longleftrightarrow> j = i)
            \<and> b_name (c_buttons c ! i) = c_buttonNamePrimary c
            \<and> i = (if length (gp_buttons gamepad) > 1 then 1 else 0)"
proof -
  let ?D = "default_buttons (gp_buttons gamepad)"
  let ?k = "if length (gp_buttons gamepad) > 1 then 1 else (0::nat)"
  let ?n = "if length (gp_buttons gamepad) > 1 then ''button_1'' else ''button_0''"
  from VRController_with_shape [OF c]
  have cb: "c_buttons c = mark_primary ?n ?D" and pn: "c_buttonNamePrimary c = ?n"
    by auto
  have len: "length ?D = length (gp_buttons gamepad)" by (rule default_buttons_length)
  have k: "?k < length (gp_buttons gamepad)" using ne by (cases "gp_buttons gamepad") auto
  have "b_name (?D ! ?k) = ?n"
    using default_name_nth [OF k] by (simp add: string_of_nat_small)
  then have named: "?n \<in> set (map b_name ?D)"
    using k len by (metis length_map nth_map nth_mem)
  from mark_primary_exactly_one [OF default_buttons_not_primary named]
  obtain i where i: "i < length ?D" and nm: "b_name (?D ! i) = ?n"
    and one: "\<forall>j < length ?D. b_isPrimary (mark_primary ?n ?D ! j) \<longleftrightarrow> j = i"
    by blast
  from i len have "b_name (?D ! i) = ''button_'' @ string_of_nat i"
    by (simp add: default_name_nth)
  with nm have "string_of_nat i = (if length (gp_buttons gamepad) > 1 then ''1'' else ''0'')"
    by (simp split: if_splits)
  then have ik: "i = ?k"
    using string_of_nat_is_0 [of i] string_of_nat_is_1 [of i] by (simp split: if_splits)
  have l2: "length (c_buttons c) = length ?D" by (simp add: cb mark_primary_length)
  have "b_name (c_buttons c ! i) = c_buttonNamePrimary c"
    using nth_b_name_mark_primary [OF i, of ?n] nm by (simp add: cb pn)
  with i one ik l2 show ?thesis unfolding cb [symmetric] by auto
qed

lemma all_false_from_map:
  "map b_isPrimary bs1 = map b_isPrimary bs0 \<Longrightarrow> \<forall>b \<in> set bs0. \<not> b_isPrimary b
     \<Longrightarrow> \<forall>b \<in> set bs1. \<not> b_isPrimary b"
proof -
  assume m: "map b_isPrimary bs1 = map b_isPrimary bs0" and f: "\<forall>b \<in> set bs0. \<not> b_isPrimary b"
  have "set (map b_isPrimary bs1) = set (map b_isPrimary bs0)" using m by simp
  then have "b_isPrimary ` set bs1 = b_isPrimary ` set bs0" by simp
  with f show ?thesis by blast
qed

lemma constructed_primary_schema:
  assumes look: "getSupportedById ident = Some s"
    and c: "VRController_with (Some s) gamepad = Inr c"
  shows "\<exists>i < length (c_buttons c).
            (\<forall>j < length (c_buttons c). b_isPrimary (c_buttons c ! j) \<longleftrightarrow> j = i)
            \<and> b_name (c_buttons c ! i) = c_buttonNamePrimary c
            \<and> sup_primary s = Some (c_buttonNamePrimary c)"
proof -
  let ?D = "default_buttons (gp_buttons gamepad)"
  from supported_schema_primary [OF look] obtain p names where
    p: "sup_primary s = Some p" and names: "sup_buttons s = Some names" and pin: "p \<in> set names"
    by blast
  from VRController_with_shape [OF c] p names obtain bs1 where
    rn: "rename_buttons names ?D = Inr bs1"
    and cb: "c_buttons c = mark_primary p bs1" and pn: "c_buttonNamePrimary c = p"
    by auto
  from rename_buttons_Inr [OF rn]
  have nm: "map b_name bs1 = names @ drop (length names) (map b_name ?D)"
    and pr: "map b_isPrimary bs1 = map b_isPrimary ?D"
    by auto
  have named: "p \<in> set (map b_name bs1)" using pin by (simp add: nm)
  have none: "\<forall>b \<in> set bs1. \<not> b_isPrimary b"
    using all_false_from_map [OF pr default_buttons_not_primary] .
  from mark_primary_exactly_one [OF none named]
  obtain i where i: "i < length bs1" and n: "b_name (bs1 ! i) = p"
    and one: "\<forall>j < length bs1. b_isPrimary (mark_primary p bs1 ! j) \<longleftrightarrow> j = i"
    by blast
  have l2: "length (c_buttons c) = length bs1" by (simp add: cb mark_primary_length)
  have "b_name (c_buttons c ! i) = c_buttonNamePrimary c"
    using nth_b_name_mark_primary [OF i, of p] n by (simp add: cb pn)
  with i one l2 p pn show ?thesis unfolding cb [symmetric] by auto
qed

text \<open>
  Claim C4, as the code has it. Every constructed controller with at least one button has
  exactly one button whose \<open>isPrimary\<close> is true: the button named by the schema's
  \<open>primary\<close> when a schema matched, and otherwise button 1 when the device reports more
  than one button, else button 0. The flags stay as they are through every update.
\<close>

theorem exactly_one_primary_button:
  "(VRController gamepad = Inr c \<and> gp_buttons gamepad \<noteq> [] \<longrightarrow>
      (\<exists>i < length (c_buttons c).
          (\<forall>j < length (c_buttons c). b_isPrimary (c_buttons c ! j) \<longleftrightarrow> j = i)
          \<and> b_name (c_buttons c ! i) = c_buttonNamePrimary c
          \<and> (case getSupportedById (gp_id gamepad) of
               Some s \<Rightarrow> sup_primary s = Some (c_buttonNamePrimary c)
             | None \<Rightarrow> i = (if length (gp_buttons gamepad) > 1 then 1 else 0))))
   \<and> (w_heap w this = Some c0 \<and> updates T run this w = Inr w' \<longrightarrow>
        (\<exists>c'. w_heap w' this = Some c'
            \<and> map b_isPrimary (c_buttons c') = map b_isPrimary (c_buttons c0)))"
proof (intro conjI impI)
  assume a: "VRController gamepad = Inr c \<and> gp_buttons gamepad \<noteq> []"
  show "\<exists>i < length (c_buttons c).
          (\<forall>j < length (c_buttons c). b_isPrimary (c_buttons c ! j) \<longleftrightarrow> j = i)
          \<and> b_name (c_buttons c ! i) = c_buttonNamePrimary c
          \<and> (case getSupportedById (gp_id gamepad) of
               Some s \<Rightarrow> sup_primary s = Some (c_buttonNamePrimary c)
             | None \<Rightarrow> i = (if length (gp_buttons gamepad) > 1 then 1 else 0))"
  proof (cases "getSupportedById (gp_id gamepad)")
    case None
    with a have "VRController_with None gamepad = Inr c" by (simp add: VRController_def)
    from constructed_primary_generic [OF this] a None show ?thesis by simp
  next
    case (Some s)
    with a have "VRController_with (Some s) gamepad = Inr c" by (simp add: VRController_def)
    from constructed_primary_schema [OF Some this] Some show ?thesis by simp
  qed
next
  assume "w_heap w this = Some c0 \<and> updates T run this w = Inr w'"
  then show "\<exists>c'. w_heap w' this = Some c'
            \<and> map b_isPrimary (c_buttons c') = map b_isPrimary (c_buttons c0)"
    using updates_keeps [of w this c0 T run w'] by blast
qed

theorem exactly_one_primary_button_witness:
  "(case VRController vive_handle of
      Inl e \<Rightarrow> False
    | Inr c \<Rightarrow> vive_handle \<noteq> vive_handle\<lparr>gp_buttons := []\<rparr>
        \<and> map b_isPrimary (c_buttons c) = [False, True, False, False]
        \<and> map b_name (c_buttons c) = [''thumbpad'', ''trigger'', ''grip'', ''menu'']
        \<and> (\<exists>i < length (c_buttons c).
              (\<forall>j < length (c_buttons c). b_isPrimary (c_buttons c ! j) \<longleftrightarrow> j = i)
              \<and> b_name (c_buttons c ! i) = ''trigger''))
   \<and> (case VRController unknown_handle of
      Inl e \<Rightarrow> False
    | Inr c \<Rightarrow> map b_isPrimary (c_buttons c) = [False, True])"
proof -
  obtain c where c: "VRController vive_handle = Inr c"
    and fl: "map b_isPrimary (c_buttons c) = [False, True, False, False]"
    and nm: "map b_name (c_buttons c) = [''thumbpad'', ''trigger'', ''grip'', ''menu'']"
    and pn: "c_buttonNamePrimary c = ''trigger''"
    by (simp add: vive_handle_def vive_handle_lookup sup_vive_def construct_simps)
  have ne: "gp_buttons vive_handle \<noteq> []" by (simp add: vive_handle_def)
  from exactly_one_primary_button [of vive_handle c] c ne
  have "\<exists>i < length (c_buttons c).
          (\<forall>j < length (c_buttons c). b_isPrimary (c_buttons c ! j) \<longleftrightarrow> j = i)
          \<and> b_name (c_buttons c ! i) = c_buttonNamePrimary c"
    by blast
  then have ex: "\<exists>i < length (c_buttons c).
              (\<forall>j < length (c_buttons c). b_isPrimary (c_buttons c ! j) \<longleftrightarrow> j = i)
              \<and> b_name (c_buttons c ! i) = ''trigger''"
    by (simp add: pn)
  have u: "(case VRController unknown_handle of
      Inl e \<Rightarrow> False
    | Inr c \<Rightarrow> map b_isPrimary (c_buttons c) = [False, True])"
    by (simp add: unknown_handle_def unknown_lookup construct_simps string_of_nat_small)
  have d: "vive_handle \<noteq> vive_handle\<lparr>gp_buttons := []\<rparr>"
    by (simp add: vive_handle_def)
  show ?thesis using c fl nm ex u d by simp
qed

text \<open>
  The claim as stated fails for a device without buttons: the controller is constructed
  and no button is primary.
\<close>

theorem no_buttons_no_primary_counterexample:
  "(case VRController no_buttons_handle of
      Inl e \<Rightarrow> False
    | Inr c \<Rightarrow> c_buttons c = [] \<and> filter b_isPrimary (c_buttons c) = []
               \<and> c_buttonNamePrimary c = ''button_0'')"
  by (simp add: no_buttons_handle_def unknown_lookup construct_simps)

subsection \<open>Degrees of freedom (C8)\<close>

text \<open>
  Claim C8. The constructor sets the degrees of freedom from the pose of the handle it is
  given: 0 without a pose, and otherwise 3 for each of \<open>hasOrientation\<close> and
  \<open>hasPosition\<close> that is true. No later update changes the value, whatever pose the
  handle reports then.
\<close>

theorem dof_fixed_at_construction:
  "(VRController gamepad = Inr c \<longrightarrow>
      c_dof c = (case gp_pose gamepad of
                   None \<Rightarrow> 0
                 | Some p \<Rightarrow> 3 * ((if hasOrientation p then 1 else 0)
                                   + (if hasPosition p then 1 else 0))))
   \<and> (w_heap w this = Some c0 \<and> updates T run this w = Inr w' \<longrightarrow>
        (\<exists>c'. w_heap w' this = Some c' \<and> c_dof c' = c_dof c0))"
proof (intro conjI impI)
  assume "VRController gamepad = Inr c"
  then have "c_dof c = dof_of (gp_pose gamepad)"
    using VRController_with_shape [of "getSupportedById (gp_id gamepad)" gamepad c]
    by (auto simp: VRController_def)
  then show "c_dof c = (case gp_pose gamepad of
                   None \<Rightarrow> 0
                 | Some p \<Rightarrow> 3 * ((if hasOrientation p then 1 else 0)
                                   + (if hasPosition p then 1 else 0)))"
    by (simp add: dof_of_def)
next
  assume "w_heap w this = Some c0 \<and> updates T run this w = Inr w'"
  then show "\<exists>c'. w_heap w' this = Some c' \<and> c_dof c' = c_dof c0"
    using updates_keeps [of w this c0 T run w'] by blast
qed

theorem dof_fixed_at_construction_witness:
  "\<forall>T. (case onGamepadConnect daydream_handle empty_world of
      Inl e \<Rightarrow> False
    | Inr w1 \<Rightarrow>
        (case w_heap w1 0 of None \<Rightarrow> False | Some c \<Rightarrow> c_dof c = 3)
        \<and> (case updates T
                  [(tick0, daydream_handle\<lparr>gp_pose :=
                      Some \<lparr>hasOrientation = True, hasPosition = True,
                            orientation = Some (0, 0, 0, 1), position = Some (0, 1, 0)\<rparr>\<rparr>)]
                  0 w1 of
             Inl e \<Rightarrow> False
           | Inr w2 \<Rightarrow>
               (case w_heap w2 0 of
                  None \<Rightarrow> False
                | Some c \<Rightarrow> c_dof c = 3 \<and> c_position c = (0, 1, 0))))"
proof
  fix T
  let ?later = "daydream_handle\<lparr>gp_pose :=
                      Some \<lparr>hasOrientation = True, hasPosition = True,
                            orientation = Some (0, 0, 0, 1), position = Some (0, 1, 0)\<rparr>\<rparr>"
  have "\<exists>w1 c1 w2. onGamepadConnect daydream_handle empty_world = Inr w1
          \<and> w_heap w1 0 = Some c1 \<and> c_dof c1 = 3
          \<and> updates T [(tick0, ?later)] 0 w1 = Inr w2
          \<and> (case w_heap w2 0 of None \<Rightarrow> False | Some c \<Rightarrow> c_position c = (0, 1, 0))"
    by (simp add: onGamepadConnect_def empty_world_def dispatch_def
          daydream_handle_def daydream_lookup sup_daydream_def construct_simps
          update_def poll_simps applyVibes_def pose_absent_def update_pose_def)
  then obtain w1 c1 w2 where w1: "onGamepadConnect daydream_handle empty_world = Inr w1"
    and h1: "w_heap w1 0 = Some c1" and d1: "c_dof c1 = 3"
    and w2: "updates T [(tick0, ?later)] 0 w1 = Inr w2"
    and pos: "(case w_heap w2 0 of None \<Rightarrow> False | Some c \<Rightarrow> c_position c = (0, 1, 0))"
    by blast
  from dof_fixed_at_construction [of _ _ w1 0 c1 T "[(tick0, ?later)]" w2] h1 w2
  obtain c2 where c2: "w_heap w2 0 = Some c2" and d2: "c_dof c2 = c_dof c1"
    by blast
  show "(case onGamepadConnect daydream_handle empty_world of
      Inl e \<Rightarrow> False
    | Inr w1 \<Rightarrow>
        (case w_heap w1 0 of None \<Rightarrow> False | Some c \<Rightarrow> c_dof c = 3)
        \<and> (case updates T [(tick0, ?later)] 0 w1 of
             Inl e \<Rightarrow> False
           | Inr w2 \<Rightarrow>
               (case w_heap w2 0 of
                  None \<Rightarrow> False
                | Some c \<Rightarrow> c_dof c = 3 \<and> c_position c = (0, 1, 0))))"
    using w1 h1 w2 c2 d2 d1 pos by auto
qed

subsection \<open>Disconnection on a missing pose (C3)\<close>

lemma poll_buttons_ok:
  "i + length bs \<le> length raw \<Longrightarrow> \<exists>evs bs'. poll_buttons raw i bs = Inr (evs, bs')"
proof (induction bs arbitrary: i)
  case Nil
  then show ?case by simp
next
  case (Cons b bs)
  then have i: "i < length raw" and rest: "Suc i + length bs \<le> length raw" by simp_all
  from Cons.IH [OF rest] obtain evs bs' where "poll_buttons raw (Suc i) bs = Inr (evs, bs')"
    by blast
  with i show ?case by (simp add: at_index_def split: prod.splits)
qed

lemma pollForChanges_ok:
  assumes "length (c_buttons c) \<le> length (gp_buttons gamepad)"
  shows "\<exists>evs c'. pollForChanges gamepad c = Inr (evs, c')"
proof -
  let ?c1 = "if c_hand c \<noteq> gp_hand gamepad then c\<lparr>c_hand := gp_hand gamepad\<rparr> else c"
  have "c_buttons ?c1 = c_buttons c" by simp
  with assms poll_buttons_ok [of 0 "c_buttons ?c1" "gp_buttons gamepad"]
  obtain evs bs' where "poll_buttons (gp_buttons gamepad) 0 (c_buttons ?c1) = Inr (evs, bs')"
    by auto
  then show ?thesis
    unfolding pollForChanges_def Let_def by (simp split: prod.splits)
qed

text \<open>Every event type of \<open>pollForChanges\<close> contains a space.\<close>

lemma poll_dpad_space:
  "poll_dpad thr name raw prev dp = (evs, dp') \<Longrightarrow> e \<in> set evs \<Longrightarrow> CHR '' '' \<in> set (ev_type e)"
proof (induction dp arbitrary: prev evs dp')
  case Nil
  then show ?case by simp
next
  case (Cons p dp)
  obtain d entry where p: "p = (d, entry)" by (cases p)
  obtain evs0 dp0 where r: "poll_dpad thr name raw
      (dpad_axisPressed thr d (at_index raw (dp_index entry)) prev) dp = (evs0, dp0)"
    by (meson surj_pair)
  from Cons.prems have "e \<in> set evs0 \<or> CHR '' '' \<in> set (ev_type e)"
    by (auto simp: p r Let_def split: if_splits)
  with Cons.IH [OF r] show ?case by blast
qed

lemma poll_axis_space:
  assumes "poll_axis style thr pthr raw a = (evs, a')" and "e \<in> set evs"
  shows "CHR '' '' \<in> set (ev_type e)"
proof (cases "truthy (at_index raw (fst (ax_indexes a))) \<and> truthy (at_index raw (snd (ax_indexes a)))")
  case False
  then show ?thesis using assms poll_axis_skipped [of raw a style thr pthr] by simp
next
  case True
  then show ?thesis
    using assms unfolding poll_axis_def Let_def
    by (auto split: if_splits option.splits prod.splits dest: poll_dpad_space)
qed

lemma poll_axes_space:
  "poll_axes style thr pthr raw as = (evs, as') \<Longrightarrow> e \<in> set evs
     \<Longrightarrow> CHR '' '' \<in> set (ev_type e)"
proof (induction as arbitrary: evs as')
  case Nil
  then show ?case by simp
next
  case (Cons a as)
  obtain e1 a1 where a: "poll_axis style thr pthr raw a = (e1, a1)" by (meson surj_pair)
  obtain e2 as2 where r: "poll_axes style thr pthr raw as = (e2, as2)" by (meson surj_pair)
  from Cons.prems have "e \<in> set e1 \<or> e \<in> set e2" by (auto simp: a r)
  then show ?case using poll_axis_space [OF a] Cons.IH [OF r] by blast
qed

lemma poll_button_space:
  "e \<in> set (fst (poll_button r b)) \<Longrightarrow> CHR '' '' \<in> set (ev_type e)"
  by (auto simp: poll_button_def Let_def eventAction_def split: if_splits)

lemma poll_buttons_space:
  "poll_buttons raw i bs = Inr (evs, bs') \<Longrightarrow> e \<in> set evs \<Longrightarrow> CHR '' '' \<in> set (ev_type e)"
proof (induction bs arbitrary: i evs bs')
  case Nil
  then show ?case by simp
next
  case (Cons b bs)
  from Cons.prems obtain r where r: "at_index raw i = Some r"
    by (auto split: option.splits)
  obtain e1 b1 where b: "poll_button r b = (e1, b1)" by (meson surj_pair)
  from Cons.prems r b obtain e2 bs2 where rest: "poll_buttons raw (Suc i) bs = Inr (e2, bs2)"
    and evs: "evs = e1 @ e2"
    by (auto split: sum.splits)
  from Cons.prems(2) evs have "e \<in> set e1 \<or> e \<in> set e2" by simp
  then show ?case
    using poll_button_space [of e r b] b Cons.IH [OF rest] by auto
qed

lemma pollForChanges_space:
  assumes "pollForChanges gamepad c = Inr (evs, c')" and "e \<in> set evs"
  shows "CHR '' '' \<in> set (ev_type e)"
proof -
  let ?c1 = "if c_hand c \<noteq> gp_hand gamepad then c\<lparr>c_hand := gp_hand gamepad\<rparr> else c"
  obtain e1 axes' where ax: "poll_axes (c_style ?c1) (c_axisThreshold ?c1)
      (c_axisPressThreshold ?c1) (gp_axes gamepad) (c_axes ?c1) = (e1, axes')"
    by (meson surj_pair)
  from assms(1) obtain e2 buttons' where
    bt: "poll_buttons (gp_buttons gamepad) 0 (c_buttons ?c1) = Inr (e2, buttons')"
    and evs: "evs = (if c_hand c \<noteq> gp_hand gamepad
                     then [Event ''hand changed'' (Hand (c_hand ?c1))] else []) @ e1 @ e2"
    unfolding pollForChanges_def Let_def ax
    by (auto split: sum.splits)
  from assms(2) evs have "ev_type e = ''hand changed'' \<or> e \<in> set e1 \<or> e \<in> set e2"
    by (auto split: if_splits)
  then show ?thesis
    using poll_axes_space [OF ax] poll_buttons_space [OF bt] by auto
qed

lemma pollForChanges_not_disconnected:
  assumes "pollForChanges gamepad c = Inr (evs, c')"
  shows "filter (\<lambda>x. ev_type (snd x) = ''disconnected'') (map (\<lambda>e. (tg, e)) evs) = []"
proof -
  have "\<forall>e \<in> set evs. ev_type e \<noteq> ''disconnected''"
  proof
    fix e assume "e \<in> set evs"
    from pollForChanges_space [OF assms this] show "ev_type e \<noteq> ''disconnected''" by auto
  qed
  then show ?thesis by (auto simp: filter_empty_conv)
qed

text \<open>
  Claim C3. Let a controller that has posed be registered under its handle's index, and
  let the handle report no pose (no pose object, or neither orientation nor position)
  while still reporting the buttons the controller tracks. Then \<open>update\<close> returns
  normally; among the events it dispatches exactly one has the type \<open>disconnected\<close>, it
  is dispatched on that controller and is the last one; the registry slot of the index is
  empty afterwards and the other slots are as before; and the controller's pose state is
  left as it was.
\<close>

theorem null_pose_disconnects_once:
  assumes heap: "w_heap w this = Some c"
    and posed: "c_hasPosed c"
    and absent: "pose_absent (gp_pose g)"
    and reg: "w_controllers w (gp_index g) = Some this"
    and btn: "length (c_buttons c) \<le> length (gp_buttons g)"
  shows "\<exists>w' c'. update T clk g this w = Inr w'
     \<and> take (length (w_dispatched w)) (w_dispatched w') = w_dispatched w
     \<and> filter (\<lambda>x. ev_type (snd x) = ''disconnected'')
          (drop (length (w_dispatched w)) (w_dispatched w'))
         = [(OnController this, Event ''disconnected'' (Controller this))]
     \<and> last (w_dispatched w') = (OnController this, Event ''disconnected'' (Controller this))
     \<and> w_controllers w' = (w_controllers w)(gp_index g := None)
     \<and> w_heap w' this = Some c'
     \<and> c_hasPosed c' \<and> c_visible c' = c_visible c
     \<and> c_quaternion c' = c_quaternion c \<and> c_position c' = c_position c
     \<and> c_matrix c' = c_matrix c \<and> c_armModel c' = c_armModel c
     \<and> c_matrixWorldNeedsUpdate c' = c_matrixWorldNeedsUpdate c"
proof -
  from pollForChanges_ok [OF btn] obtain evs c1 where
    poll: "pollForChanges g c = Inr (evs, c1)" by blast
  obtain pulse c2 where vib:
    "applyVibes (now_renderVibes clk) (now_applyVibes clk) g c1 = (pulse, c2)"
    by (meson surj_pair)
  note f1 = pollForChanges_frame [OF poll]
  note f2 = applyVibes_frame [OF vib]
  have posed2: "c_hasPosed c2" using f1 f2 posed by simp
  let ?new = "map (\<lambda>e. (OnController this, e)) evs
                @ [(OnController this, Event ''disconnected'' (Controller this))]"
  let ?w3 = "(case pulse of
               None \<Rightarrow> dispatch (OnController this) evs w
             | Some (i, d) \<Rightarrow> (dispatch (OnController this) evs w)
                   \<lparr>w_pulses := w_pulses (dispatch (OnController this) evs w)
                                  @ [(gp_index g, i, d)]\<rparr>)
            \<lparr>w_heap := (w_heap w)(this \<mapsto> c2)\<rparr>"
  let ?w' = "(dispatch (OnController this) [Event ''disconnected'' (Controller this)] ?w3)
               \<lparr>w_controllers := (w_controllers w)(gp_index g := None)\<rparr>"
  have up: "update T clk g this w = Inr ?w'"
    unfolding update_def
    using heap poll vib absent posed2 reg
    by (auto simp: Let_def dispatch_def onGamepadDisconnect_def split: option.splits)
  have log: "w_dispatched ?w' = w_dispatched w @ ?new"
    by (auto simp: dispatch_def split: option.splits)
  have hp: "w_heap ?w' this = Some c2"
    by (auto simp: dispatch_def split: option.splits)
  have rg: "w_controllers ?w' = (w_controllers w)(gp_index g := None)"
    by simp
  have flt: "filter (\<lambda>x. ev_type (snd x) = ''disconnected'') ?new
               = [(OnController this, Event ''disconnected'' (Controller this))]"
    using pollForChanges_not_disconnected [OF poll, of "OnController this"] by simp
  have "take (length (w_dispatched w)) (w_dispatched ?w') = w_dispatched w"
    unfolding log by simp
  moreover have "filter (\<lambda>x. ev_type (snd x) = ''disconnected'')
          (drop (length (w_dispatched w)) (w_dispatched ?w'))
         = [(OnController this, Event ''disconnected'' (Controller this))]"
    unfolding log using flt by simp
  moreover have "last (w_dispatched ?w')
         = (OnController this, Event ''disconnected'' (Controller this))"
    unfolding log by simp
  ultimately show ?thesis
    using up hp rg posed2 f1 f2 by (intro exI [of _ ?w'] exI [of _ c2]) simp
qed

theorem null_pose_disconnects_once_witness:
  "\<forall>T. (case onGamepadConnect vive_handle empty_world of
      Inl e \<Rightarrow> False
    | Inr w1 \<Rightarrow>
        (case update T tick0 vive_handle 0 w1 of
           Inl e \<Rightarrow> False
         | Inr w2 \<Rightarrow>
             w_controllers w2 0 = Some 0
             \<and> (case update T tick0 (vive_handle\<lparr>gp_pose := None\<rparr>) 0 w2 of
                  Inl e \<Rightarrow> False
                | Inr w3 \<Rightarrow>
                    w_controllers w3 0 = None
                    \<and> filter (\<lambda>x. ev_type (snd x) = ''disconnected'')
                         (drop (length (w_dispatched w2)) (w_dispatched w3))
                        = [(OnController 0, Event ''disconnected'' (Controller 0))])))"
proof
  fix T
  let ?gone = "vive_handle\<lparr>gp_pose := None\<rparr>"
  have "\<exists>w1 w2 c2. onGamepadConnect vive_handle empty_world = Inr w1
          \<and> update T tick0 vive_handle 0 w1 = Inr w2
          \<and> w_heap w2 0 = Some c2 \<and> c_hasPosed c2 \<and> w_controllers w2 0 = Some 0
          \<and> length (c_buttons c2) \<le> 4"
    by (simp add: onGamepadConnect_def empty_world_def dispatch_def
          vive_handle_def vive_handle_lookup sup_vive_def construct_simps
          update_def poll_simps applyVibes_def renderVibes_def render_channel_def
          unary_plus_def pose_absent_def update_pose_def tick0_def VIBE_TIME_MAX_def)
  then obtain w1 w2 c2 where w1: "onGamepadConnect vive_handle empty_world = Inr w1"
    and w2: "update T tick0 vive_handle 0 w1 = Inr w2"
    and h2: "w_heap w2 0 = Some c2" and posed: "c_hasPosed c2"
    and reg: "w_controllers w2 0 = Some 0" and len: "length (c_buttons c2) \<le> 4"
    by blast
  have absent: "pose_absent (gp_pose ?gone)" by (simp add: pose_absent_def)
  have reg': "w_controllers w2 (gp_index ?gone) = Some 0"
    using reg by (simp add: vive_handle_def)
  have btn: "length (c_buttons c2) \<le> length (gp_buttons ?gone)"
    using len by (simp add: vive_handle_def)
  from null_pose_disconnects_once [OF h2 posed absent reg' btn, of T tick0]
  obtain w3 where w3: "update T tick0 ?gone 0 w2 = Inr w3"
    and flt: "filter (\<lambda>x. ev_type (snd x) = ''disconnected'')
          (drop (length (w_dispatched w2)) (w_dispatched w3))
         = [(OnController 0, Event ''disconnected'' (Controller 0))]"
    and cleared: "w_controllers w3 = (w_controllers w2)(gp_index ?gone := None)"
    by blast
  have "w_controllers w3 0 = None" using cleared by (simp add: vive_handle_def)
  then show "(case onGamepadConnect vive_handle empty_world of
      Inl e \<Rightarrow> False
    | Inr w1 \<Rightarrow>
        (case update T tick0 vive_handle 0 w1 of
           Inl e \<Rightarrow> False
         | Inr w2 \<Rightarrow>
             w_controllers w2 0 = Some 0
             \<and> (case update T tick0 ?gone 0 w2 of
                  Inl e \<Rightarrow> False
                | Inr w3 \<Rightarrow>
                    w_controllers w3 0 = None
                    \<and> filter (\<lambda>x. ev_type (snd x) = ''disconnected'')
                         (drop (length (w_dispatched w2)) (w_dispatched w3))
                        = [(OnController 0, Event ''disconnected'' (Controller 0))])))"
    using w1 w2 reg w3 flt by simp
qed

subsection \<open>The arm model and the clock (C9)\<close>

lemma armModel_update_shift:
  "armModel_update T (now + d) (m\<lparr>lastTime := Some (l + d)\<rparr>) =
     (armModel_update T now (m\<lparr>lastTime := Some l\<rparr>))
       \<lparr>time := Some (now + d), lastTime := Some (now + d)\<rparr>"
  by (simp add: armModel_update_def getHeadYawOrientation_def Let_def)

lemma armModel_update_rootQ:
  "rootQ (armModel_update T now m) =
     (if speed_exceeds (quatAngle T (lastControllerQ m) (controllerQ m))
           ((now - (case lastTime m of None \<Rightarrow> 0 | Some l \<Rightarrow> l)) / 1000)
      then q_slerp T (rootQ m) (getHeadYawOrientation T m)
             (quatAngle T (lastControllerQ m) (controllerQ m) / 10)
      else getHeadYawOrientation T m)"
  by (simp add: armModel_update_def Let_def)

lemma armModel_update_pose:
  "pose_orientation (armModel_update T now m) = controllerQ m
   \<and> pose_position (armModel_update T now m) =
       v_applyQuaternion T
         (v_add (wristPos (armModel_update T now m))
            (v_multiplyScalar ARM_EXTENSION_OFFSET
               (clamp ((radToDeg T (fst (euler_of_quaternion T (controllerQ m))) - 11)
                        / (50 - 11)) 0 1)))
         (rootQ (armModel_update T now m))"
  by (simp add: armModel_update_def Let_def)

text \<open>
  Claim C9. Once the model has been updated, the clock enters an update only as the time
  elapsed since the previous update: moving the clock reading and the stored time of the
  previous update by the same amount changes nothing but the stored times. The first
  update of a fresh model has no previous update, and divides by the clock reading
  itself: for the same head pose and controller orientation \<open>q\<close>, whose forward vector
  is at the angle \<open>a\<close> from the initial one, the root orientation after a first update
  at clock reading 1000 is the interpolation towards the head yaw as soon as
  \<open>a > 0.61\<close>, and after a first update at clock reading 100000 only when \<open>a > 61\<close>;
  the output position is the wrist position rotated by that root orientation.
\<close>

theorem armModel_first_update_reads_clock:
  "armModel_update T (now + d) (m\<lparr>lastTime := Some (l + d)\<rparr>) =
     (armModel_update T now (m\<lparr>lastTime := Some l\<rparr>))
       \<lparr>time := Some (now + d), lastTime := Some (now + d)\<rparr>
   \<and> rootQ (armModel_update T 1000
        (setControllerOrientation q (setHeadOrientation h (setHeadPosition p OrientationArmModel))))
      = (if quatAngle T q_identity q > 0.61
         then q_slerp T q_identity
                (getHeadYawOrientation T (setHeadOrientation h OrientationArmModel))
                (quatAngle T q_identity q / 10)
         else getHeadYawOrientation T (setHeadOrientation h OrientationArmModel))
   \<and> rootQ (armModel_update T 100000
        (setControllerOrientation q (setHeadOrientation h (setHeadPosition p OrientationArmModel))))
      = (if quatAngle T q_identity q > 61
         then q_slerp T q_identity
                (getHeadYawOrientation T (setHeadOrientation h OrientationArmModel))
                (quatAngle T q_identity q / 10)
         else getHeadYawOrientation T (setHeadOrientation h OrientationArmModel))
   \<and> pose_position (armModel_update T now m) =
       v_applyQuaternion T
         (v_add (wristPos (armModel_update T now m))
            (v_multiplyScalar ARM_EXTENSION_OFFSET
               (clamp ((radToDeg T (fst (euler_of_quaternion T (controllerQ m))) - 11)
                        / (50 - 11)) 0 1)))
         (rootQ (armModel_update T now m))"
proof (intro conjI)
  show "armModel_update T (now + d) (m\<lparr>lastTime := Some (l + d)\<rparr>) =
     (armModel_update T now (m\<lparr>lastTime := Some l\<rparr>))
       \<lparr>time := Some (now + d), lastTime := Some (now + d)\<rparr>"
    by (rule armModel_update_shift)
  show "rootQ (armModel_update T 1000
        (setControllerOrientation q (setHeadOrientation h (setHeadPosition p OrientationArmModel))))
      = (if quatAngle T q_identity q > 0.61
         then q_slerp T q_identity
                (getHeadYawOrientation T (setHeadOrientation h OrientationArmModel))
                (quatAngle T q_identity q / 10)
         else getHeadYawOrientation T (setHeadOrientation h OrientationArmModel))"
    by (simp add: armModel_update_rootQ setControllerOrientation_def setHeadOrientation_def
          setHeadPosition_def OrientationArmModel_def getHeadYawOrientation_def
          speed_exceeds_def MIN_ANGULAR_SPEED_def)
  show "rootQ (armModel_update T 100000
        (setControllerOrientation q (setHeadOrientation h (setHeadPosition p OrientationArmModel))))
      = (if quatAngle T q_identity q > 61
         then q_slerp T q_identity
                (getHeadYawOrientation T (setHeadOrientation h OrientationArmModel))
                (quatAngle T q_identity q / 10)
         else getHeadYawOrientation T (setHeadOrientation h OrientationArmModel))"
    by (simp add: armModel_update_rootQ setControllerOrientation_def setHeadOrientation_def
          setHeadPosition_def OrientationArmModel_def getHeadYawOrientation_def
          speed_exceeds_def MIN_ANGULAR_SPEED_def)
  show "pose_position (armModel_update T now m) =
       v_applyQuaternion T
         (v_add (wristPos (armModel_update T now m))
            (v_multiplyScalar ARM_EXTENSION_OFFSET
               (clamp ((radToDeg T (fst (euler_of_quaternion T (controllerQ m))) - 11)
                        / (50 - 11)) 0 1)))
         (rootQ (armModel_update T now m))"
    using armModel_update_pose [of T now m] by blast
qed

end
